theory Spec2Isabelle
  imports Main
begin

section \<open>Strings and the process environment\<close>

text \<open>
  JavaScript strings are modelled as \<^typ>\<open>string\<close> (lists of characters); the two
  string tests the server uses on them are \<open>startsWith\<close> and \<open>includes\<close>
  (here \<open>str_includes\<close>).
\<close>

fun startsWith :: "'a list \<Rightarrow> 'a list \<Rightarrow> bool" where
  "startsWith s [] = True"
| "startsWith [] (p # ps) = False"
| "startsWith (c # cs) (p # ps) = (c = p \<and> startsWith cs ps)"

fun str_includes :: "'a list \<Rightarrow> 'a list \<Rightarrow> bool" where
  "str_includes [] n = (n = [])"
| "str_includes (c # cs) n = (startsWith (c # cs) n \<or> str_includes cs n)"

text \<open>
  \<open>process.env\<close> is a dictionary from names to strings. \<open>process.env.X || d\<close> is
  \<open>d\<close> when the variable is unset or the empty string.
\<close>

type_synonym env = "string \<rightharpoonup> string"

definition env_or :: "env \<Rightarrow> string \<Rightarrow> string \<Rightarrow> string" where
  "env_or e k d = (case e k of None \<Rightarrow> d | Some v \<Rightarrow> if v = [] then d else v)"

text \<open>Decimal rendering of a number inside a template string.\<close>

function show_nat :: "nat \<Rightarrow> string" where
  "show_nat n = (if n < 10 then [char_of (48 + n)]
                 else show_nat (n div 10) @ [char_of (48 + n mod 10)])"
  by pat_completeness auto
termination
  by (relation "measure id") auto

declare show_nat.simps [simp del]

definition show_int :: "int \<Rightarrow> string" where
  "show_int i = (if i < 0 then CHR ''-'' # show_nat (nat (- i)) else show_nat (nat i))"

section \<open>AI reply routes (server/src/routes/ai.ts)\<close>

subsection \<open>Messages and the request schema\<close>

record message =
  role :: string
  content :: string

text \<open>
  The request body as \<open>aiRequestSchema\<close> reads it: the list of messages and the optional
  provider name. \<open>aiRequestSchema.parse\<close> throws a \<open>ZodError\<close> unless there is at least
  one message, every role is one of the three role names, every content has at least one
  character, and the provider, when given, is one of the three provider names. The
  schema's optional \<open>stream\<close> flag is read by neither handler and is left out.
\<close>

record ai_request =
  req_messages :: "message list"
  req_provider :: "string option"

datatype js_error = ZodError | Error string

definition messageSchema_ok :: "message \<Rightarrow> bool" where
  "messageSchema_ok m =
     (role m \<in> {''system'', ''user'', ''assistant''} \<and> 1 \<le> length (content m))"

definition aiRequestSchema_parse :: "ai_request \<Rightarrow> js_error + (message list \<times> string option)" where
  "aiRequestSchema_parse body =
     (if list_all messageSchema_ok (req_messages body) \<and> 1 \<le> length (req_messages body)
         \<and> (case req_provider body of None \<Rightarrow> True
             | Some p \<Rightarrow> p \<in> {''openai'', ''anthropic'', ''local''})
      then Inr (req_messages body, req_provider body)
      else Inl ZodError)"

subsection \<open>Content length validation\<close>

definition totalContent :: "message list \<Rightarrow> string" where
  "totalContent messages = concat (map content (filter (\<lambda>m. role m = ''user'') messages))"

text \<open>
  The ceiling \<open>MAX_LETTER_CHARS\<close> is a number fixed when the module is loaded; it is
  an argument of the model, \<open>None\<close> when it is \<open>NaN\<close>.
  \<open>validateContentLength\<close> returns nothing and throws when the joined user content is
  longer than the ceiling. A comparison with \<open>NaN\<close> is false, so nothing is thrown then.
\<close>

definition validateContentLength :: "int option \<Rightarrow> message list \<Rightarrow> js_error + unit" where
  "validateContentLength mx messages =
     (case mx of
        None \<Rightarrow> Inr ()
      | Some n \<Rightarrow>
          if int (length (totalContent messages)) > n
          then Inl (Error (''Letter content too long. Maximum '' @ show_int n
                           @ '' characters allowed.''))
          else Inr ())"

subsection \<open>Providers and their configuration\<close>

datatype ai_provider = OpenAIProvider | AnthropicProvider | LocalAIProvider

record provider_config =
  openai_apiKey :: string
  anthropic_apiKey :: string
  local_provider :: string
  local_baseUrl :: string

text \<open>The three constructors read the environment once, at start.\<close>

definition local_baseUrl_of :: "env \<Rightarrow> string \<Rightarrow> string" where
  "local_baseUrl_of e p =
     (if p = ''ollama'' then env_or e ''OLLAMA_BASE_URL'' ''http://ollama:11434''
      else if p = ''lmstudio'' then env_or e ''LMSTUDIO_BASE_URL'' ''http://lmstudio:1234''
      else if p = ''vllm'' then env_or e ''VLLM_BASE_URL'' ''http://vllm:8000''
      else [])"

definition construct_providers :: "env \<Rightarrow> provider_config" where
  "construct_providers e =
     \<lparr> openai_apiKey = env_or e ''OPENAI_API_KEY'' [],
       anthropic_apiKey = env_or e ''ANTHROPIC_API_KEY'' [],
       local_provider = env_or e ''LOCAL_PROVIDER'' ''ollama'',
       local_baseUrl = local_baseUrl_of e (env_or e ''LOCAL_PROVIDER'' ''ollama'') \<rparr>"

fun isConfigured :: "provider_config \<Rightarrow> ai_provider \<Rightarrow> bool" where
  "isConfigured c OpenAIProvider = (openai_apiKey c \<noteq> [])"
| "isConfigured c AnthropicProvider = (anthropic_apiKey c \<noteq> [])"
| "isConfigured c LocalAIProvider = (local_provider c \<noteq> ''none'' \<and> local_baseUrl c \<noteq> [])"

text \<open>
  \<open>getAIProvider\<close>: a named provider is returned as it is; with no name the first
  configured provider in the order OpenAI, Anthropic, local is returned, and an error is
  thrown when there is none. The schema lets no other name through.
\<close>

definition getAIProvider :: "provider_config \<Rightarrow> string option \<Rightarrow> js_error + ai_provider" where
  "getAIProvider c providerName =
     (if providerName = Some ''openai'' then Inr OpenAIProvider
      else if providerName = Some ''anthropic'' then Inr AnthropicProvider
      else if providerName = Some ''local'' then Inr LocalAIProvider
      else if isConfigured c OpenAIProvider then Inr OpenAIProvider
      else if isConfigured c AnthropicProvider then Inr AnthropicProvider
      else if isConfigured c LocalAIProvider then Inr LocalAIProvider
      else Inl (Error ''No AI provider configured''))"

text \<open>
  The selection policy in the specification's words: a fixed priority order, and the
  first provider in it that is configured.
\<close>

definition priority_order :: "ai_provider list" where
  "priority_order = [OpenAIProvider, AnthropicProvider, LocalAIProvider]"

definition first_configured :: "provider_config \<Rightarrow> ai_provider option" where
  "first_configured c = find (isConfigured c) priority_order"

text \<open>The names the request schema accepts for the three providers.\<close>

fun provider_name :: "ai_provider \<Rightarrow> string" where
  "provider_name OpenAIProvider = ''openai''"
| "provider_name AnthropicProvider = ''anthropic''"
| "provider_name LocalAIProvider = ''local''"

subsection \<open>The system prompt\<close>

definition systemPrompt :: string where
  "systemPrompt =
     ''You are a compassionate AI assistant helping someone process their thoughts and emotions through letter writing. The user has written a letter to someone (living or not), and you should respond thoughtfully and empathetically as if you'' @ [CHR 0x27] @ ''re that person or entity they'' @ [CHR 0x27] @ ''re writing to.\<newline>\<newline>Guidelines:\<newline>- Be warm, understanding, and supportive\<newline>- Acknowledge their feelings and experiences\<newline>- Offer gentle insights or perspectives when appropriate\<newline>- Keep responses conversational and heartfelt\<newline>- If writing as someone who has passed away, be comforting and wise\<newline>- If writing as a living person, be authentic to how they might respond\<newline>- Keep responses to a reasonable length (1-3 paragraphs typically)\<newline>\<newline>Remember: This is a safe space for emotional expression and healing.''"

definition addSystemPrompt :: "message list \<Rightarrow> message list" where
  "addSystemPrompt messages =
     (let hasSystemMessage = list_ex (\<lambda>m. role m = ''system'') messages
      in if \<not> hasSystemMessage
         then \<lparr> role = ''system'', content = systemPrompt \<rparr> # messages
         else messages)"

subsection \<open>Calling a provider\<close>

text \<open>
  What reaches a provider is recorded as an effect: a call of \<open>getResponse\<close> or of
  \<open>streamResponse\<close> that gets past the configuration check and sends its HTTP request,
  with the message list it was handed. The answer of the upstream service is an input of
  the model: \<open>Inl m\<close> when the request fails inside the provider with message \<open>m\<close>,
  \<open>Inr text\<close> when it returns a reply.
\<close>

datatype effect =
    ProviderRequest ai_provider "message list"
  | ProviderStream ai_provider "message list"

type_synonym upstream = "ai_provider \<Rightarrow> message list \<Rightarrow> string + string"

fun not_configured_message :: "ai_provider \<Rightarrow> string" where
  "not_configured_message OpenAIProvider = ''OpenAI not configured''"
| "not_configured_message AnthropicProvider = ''Anthropic not configured''"
| "not_configured_message LocalAIProvider = ''Local AI provider not configured''"

fun request_failed_prefix :: "ai_provider \<Rightarrow> string" where
  "request_failed_prefix OpenAIProvider = ''OpenAI request failed: ''"
| "request_failed_prefix AnthropicProvider = ''Anthropic request failed: ''"
| "request_failed_prefix LocalAIProvider = ''Local AI request failed: ''"

definition getResponse ::
  "provider_config \<Rightarrow> upstream \<Rightarrow> ai_provider \<Rightarrow> message list \<Rightarrow> (js_error + string) \<times> effect list" where
  "getResponse c up p messages =
     (if \<not> isConfigured c p then (Inl (Error (not_configured_message p)), [])
      else (case up p messages of
              Inl m \<Rightarrow> (Inl (Error (request_failed_prefix p @ m)), [ProviderRequest p messages])
            | Inr text \<Rightarrow> (Inr text, [ProviderRequest p messages])))"

subsection \<open>The two handlers\<close>

datatype response_body =
    ReplyBody string string
  | TokenBody string "int option" string
  | ErrorBody string string
  | EventStream

type_synonym response = "nat \<times> response_body"

text \<open>
  The \<open>catch\<close> block of \<open>POST /reply\<close>, in the order of its tests. The handlers'
  log lines are left out; the user id they abbreviate is the string that
  \<open>authRequired\<close> attached to the request.
\<close>

definition reply_catch :: "js_error \<Rightarrow> response" where
  "reply_catch e =
     (case e of
        ZodError \<Rightarrow> (400, ErrorBody ''Invalid request body'' ''VALIDATION_ERROR'')
      | Error m \<Rightarrow>
          if str_includes m ''content too long'' then (400, ErrorBody m ''CONTENT_TOO_LONG'')
          else if str_includes m ''not configured''
          then (503, ErrorBody ''AI service temporarily unavailable'' ''SERVICE_UNAVAILABLE'')
          else (500, ErrorBody ''Failed to generate AI response'' ''AI_ERROR''))"

definition provider_label :: "string option \<Rightarrow> string" where
  "provider_label requestedProvider = (case requestedProvider of None \<Rightarrow> ''auto''
     | Some p \<Rightarrow> if p = [] then ''auto'' else p)"

definition reply_handler ::
  "int option \<Rightarrow> provider_config \<Rightarrow> upstream \<Rightarrow> ai_request \<Rightarrow> response \<times> effect list" where
  "reply_handler mx c up body =
     (case aiRequestSchema_parse body of
        Inl e \<Rightarrow> (reply_catch e, [])
      | Inr (messages, requestedProvider) \<Rightarrow>
          (case validateContentLength mx messages of
             Inl e \<Rightarrow> (reply_catch e, [])
           | Inr _ \<Rightarrow>
               let messagesWithSystem = addSystemPrompt messages in
               (case getAIProvider c requestedProvider of
                  Inl e \<Rightarrow> (reply_catch e, [])
                | Inr provider \<Rightarrow>
                    (case getResponse c up provider messagesWithSystem of
                       (Inl e, fx) \<Rightarrow> (reply_catch e, fx)
                     | (Inr text, fx) \<Rightarrow>
                         ((200, ReplyBody text (provider_label requestedProvider)), fx)))))"

text \<open>
  \<open>POST /reply/stream\<close>. \<open>streamResponse\<close> throws only from its configuration check,
  before any header is written; everything after that is caught inside the provider and
  written to the event stream, so the handler's \<open>catch\<close> always finds
  \<open>res.headersSent\<close> false.
\<close>

definition stream_catch :: "js_error \<Rightarrow> response" where
  "stream_catch e =
     (case e of
        ZodError \<Rightarrow> (400, ErrorBody ''Invalid request body'' ''VALIDATION_ERROR'')
      | Error m \<Rightarrow>
          if str_includes m ''content too long'' then (400, ErrorBody m ''CONTENT_TOO_LONG'')
          else if str_includes m ''not configured''
          then (503, ErrorBody ''AI service temporarily unavailable'' ''SERVICE_UNAVAILABLE'')
          else (500, ErrorBody ''Failed to start AI streaming'' ''STREAM_ERROR''))"

definition streamResponse_call ::
  "provider_config \<Rightarrow> ai_provider \<Rightarrow> message list \<Rightarrow> (js_error + unit) \<times> effect list" where
  "streamResponse_call c p messages =
     (if \<not> isConfigured c p then (Inl (Error (not_configured_message p)), [])
      else (Inr (), [ProviderStream p messages]))"

definition stream_handler ::
  "int option \<Rightarrow> provider_config \<Rightarrow> ai_request \<Rightarrow> response \<times> effect list" where
  "stream_handler mx c body =
     (case aiRequestSchema_parse body of
        Inl e \<Rightarrow> (stream_catch e, [])
      | Inr (messages, requestedProvider) \<Rightarrow>
          (case validateContentLength mx messages of
             Inl e \<Rightarrow> (stream_catch e, [])
           | Inr _ \<Rightarrow>
               let messagesWithSystem = addSystemPrompt messages in
               (case getAIProvider c requestedProvider of
                  Inl e \<Rightarrow> (stream_catch e, [])
                | Inr provider \<Rightarrow>
                    (case streamResponse_call c provider messagesWithSystem of
                       (Inl e, fx) \<Rightarrow> (stream_catch e, fx)
                     | (Inr _, fx) \<Rightarrow> ((200, EventStream), fx)))))"

section \<open>Anthropic message conversion (server/dist/providers/anthropic.js)\<close>

record anthropic_payload =
  payload_messages :: "message list"
  payload_system :: "string option"

definition convertMessages :: "message list \<Rightarrow> anthropic_payload" where
  "convertMessages messages =
     (let systemMessage = find (\<lambda>m. role m = ''system'') messages;
          conversationMessages =
            map (\<lambda>m. \<lparr> role = role m, content = content m \<rparr>)
                (filter (\<lambda>m. role m \<noteq> ''system'') messages)
      in \<lparr> payload_messages = conversationMessages,
           payload_system =
             (case systemMessage of
                None \<Rightarrow> None
              | Some m \<Rightarrow> if content m \<noteq> [] then Some (content m) else None) \<rparr>)"

section \<open>Access token service (server/src/lib/jwt.js)\<close>

text \<open>
  The service's lifetime \<open>expiresIn\<close> is \<open>parseInt\<close> of a configuration text, a
  number that may be \<open>NaN\<close>; so is the \<open>exp\<close> computed from it. Such a number is an
  \<open>int option\<close>, \<open>None\<close> for \<open>NaN\<close> (which a token carries as \<open>null\<close>).
\<close>

record claims =
  claim_sub :: string
  claim_provider :: string
  claim_iat :: int
  claim_exp :: "int option"
  claim_iss :: string
  claim_aud :: string

record jwt_service =
  privateKey :: string
  issuer :: string
  audience :: string
  expiresIn :: "int option"

text \<open>
  The cryptography is done by WebCrypto and by the \<open>jose\<close> library, outside the
  repository; it enters the model as four functions. \<open>importKey\<close> turns the configured
  PEM text into a private key or throws; \<open>exportPublic\<close> derives the public key from it
  or throws; \<open>jws_sign\<close> is the whole \<open>new SignJWT(\<dots>)\<dots>.sign(key)\<close> chain, which
  serialises and signs a claims set or throws (a key the library refuses, a lifetime it
  refuses); \<open>jws_open\<close> checks the signature of a compact token under a public key and
  returns its claims set, or throws. A thrown error is \<open>Inl\<close> of its message.
\<close>

record ('sk, 'pk) crypto =
  importKey :: "string \<Rightarrow> string + 'sk"
  exportPublic :: "'sk \<Rightarrow> string + 'pk"
  jws_sign :: "'sk \<Rightarrow> claims \<Rightarrow> string + string"
  jws_open :: "'pk \<Rightarrow> string \<Rightarrow> string + claims"

definition getPrivateKey :: "('sk, 'pk) crypto \<Rightarrow> jwt_service \<Rightarrow> string + 'sk" where
  "getPrivateKey lib svc =
     (case importKey lib (privateKey svc) of
        Inl m \<Rightarrow> Inl (''Invalid private key format: '' @ m)
      | Inr k \<Rightarrow> Inr k)"

definition getPublicKeyFromPrivate :: "('sk, 'pk) crypto \<Rightarrow> 'sk \<Rightarrow> string + 'pk" where
  "getPublicKeyFromPrivate lib k =
     (case exportPublic lib k of
        Inl m \<Rightarrow> Inl (''Failed to derive public key: '' @ m)
      | Inr pk \<Rightarrow> Inr pk)"

text \<open>
  \<open>now\<close> is \<open>Math.floor(Date.now() / 1000)\<close>, the clock in whole seconds. Importing
  the key and the signing chain are inside one \<open>try\<close>: whatever either throws is
  rethrown as \<open>Failed to sign JWT\<close>.
\<close>

definition signServerJWT ::
  "('sk, 'pk) crypto \<Rightarrow> jwt_service \<Rightarrow> int \<Rightarrow> string \<Rightarrow> string \<Rightarrow> js_error + string" where
  "signServerJWT lib svc now sub provider =
     (case getPrivateKey lib svc of
        Inl m \<Rightarrow> Inl (Error (''Failed to sign JWT: '' @ m))
      | Inr k \<Rightarrow>
          (case jws_sign lib k
                  \<lparr> claim_sub = sub, claim_provider = provider, claim_iat = now,
                    claim_exp = map_option (\<lambda>e. now + e) (expiresIn svc),
                    claim_iss = issuer svc, claim_aud = audience svc \<rparr> of
             Inl m \<Rightarrow> Inl (Error (''Failed to sign JWT: '' @ m))
           | Inr jwt \<Rightarrow> Inr jwt))"

text \<open>
  \<open>jwtVerify(token, key, {issuer, audience})\<close> of \<open>jose\<close>: the signature first, then the
  issuer, the audience and the expiry. The library rejects a token whose \<open>exp\<close> is not
  a number, and one whose \<open>exp\<close> is not after the clock (\<open>exp <= now\<close>, RFC 7519: not
  accepted on or after the expiration time).
\<close>

definition jwtVerify ::
  "('sk, 'pk) crypto \<Rightarrow> 'pk \<Rightarrow> string \<Rightarrow> string \<Rightarrow> int \<Rightarrow> string \<Rightarrow> string + claims" where
  "jwtVerify lib pk iss aud now token =
     (case jws_open lib pk token of
        Inl m \<Rightarrow> Inl m
      | Inr c \<Rightarrow>
          if claim_iss c \<noteq> iss then Inl ''unexpected \"iss\" claim value''
          else if claim_aud c \<noteq> aud then Inl ''unexpected \"aud\" claim value''
          else
            (case claim_exp c of
               None \<Rightarrow> Inl ''\"exp\" claim must be a number''
             | Some exp \<Rightarrow>
                 if exp \<le> now then Inl ''\"exp\" claim timestamp check failed''
                 else Inr c))"

definition verifyServerJWT ::
  "('sk, 'pk) crypto \<Rightarrow> jwt_service \<Rightarrow> int \<Rightarrow> string \<Rightarrow> js_error + claims" where
  "verifyServerJWT lib svc now token =
     (case getPrivateKey lib svc of
        Inl m \<Rightarrow> Inl (Error (''Invalid JWT: '' @ m))
      | Inr k \<Rightarrow>
          (case getPublicKeyFromPrivate lib k of
             Inl m \<Rightarrow> Inl (Error (''Invalid JWT: '' @ m))
           | Inr pk \<Rightarrow>
               (case jwtVerify lib pk (issuer svc) (audience svc) now token of
                  Inl m \<Rightarrow> Inl (Error (''Invalid JWT: '' @ m))
                | Inr payload \<Rightarrow> Inr payload)))"

record user_context =
  ctx_userId :: string
  ctx_provider :: string

definition extractUserContext :: "claims \<Rightarrow> user_context" where
  "extractUserContext payload =
     \<lparr> ctx_userId = claim_sub payload, ctx_provider = claim_provider payload \<rparr>"

section \<open>Required authentication (middleware authRequired)\<close>

text \<open>
  The middleware either answers the request itself (\<open>Reject\<close>, with the status, the error
  text and the code it sends) or attaches the user context and calls \<open>next()\<close>
  (\<open>Admit\<close>). The header is \<open>None\<close> when the request has no \<open>Authorization\<close> header.
\<close>

datatype gate_outcome = Reject nat string string | Admit user_context

definition authRequired ::
  "('sk, 'pk) crypto \<Rightarrow> jwt_service \<Rightarrow> int \<Rightarrow> string option \<Rightarrow> gate_outcome" where
  "authRequired lib svc now authHeader =
     (case authHeader of
        None \<Rightarrow> Reject 401 ''Authorization header required'' ''MISSING_AUTH_HEADER''
      | Some h \<Rightarrow>
          if h = [] then Reject 401 ''Authorization header required'' ''MISSING_AUTH_HEADER''
          else if \<not> startsWith h ''Bearer ''
          then Reject 401 ''Invalid authorization header format. Expected: Bearer <token>''
                 ''INVALID_AUTH_FORMAT''
          else
            let token = drop 7 h in
            if token = [] then Reject 401 ''Token required'' ''MISSING_TOKEN''
            else
              (case verifyServerJWT lib svc now token of
                 Inl e \<Rightarrow> Reject 401 ''Invalid or expired token'' ''INVALID_TOKEN''
               | Inr payload \<Rightarrow> Admit (extractUserContext payload)))"

section \<open>Identity verifiers (server/src/lib/google.ts, server/dist/lib/apple.js)\<close>

text \<open>
  A claim that may be missing from a token is an option; \<open>!x\<close> on such a claim holds when
  it is missing or the empty string.
\<close>

definition present :: "string option \<Rightarrow> bool" where
  "present x = (case x of None \<Rightarrow> False | Some v \<Rightarrow> v \<noteq> [])"

record google_payload =
  g_sub :: "string option"
  g_email :: "string option"
  g_email_verified :: "bool option"
  g_name :: "string option"
  g_picture :: "string option"

text \<open>
  The check of signature, issuer, audience and expiry against the issuer's published
  keys is \<open>jose\<close>'s \<open>jwtVerify\<close> with a remote key set; its outcome for a token is an
  input of the model (\<open>Inl\<close> the message of the error it throws, \<open>Inr\<close> the payload).
\<close>

type_synonym 'p remote_verify = "string \<Rightarrow> string list \<Rightarrow> string \<Rightarrow> string + 'p"

text \<open>\<open>xs.filter(Boolean)\<close> on a list of strings that may be missing.\<close>

definition filter_Boolean :: "string option list \<Rightarrow> string list" where
  "filter_Boolean xs =
     concat (map (\<lambda>v. case v of None \<Rightarrow> [] | Some x \<Rightarrow> if x = [] then [] else [x]) xs)"

definition allowedAudiences_of :: "env \<Rightarrow> string \<Rightarrow> string \<Rightarrow> string list" where
  "allowedAudiences_of e k1 k2 = filter_Boolean [e k1, e k2]"

definition google_allowedAudiences :: "env \<Rightarrow> string list" where
  "google_allowedAudiences e =
     allowedAudiences_of e ''GOOGLE_CLIENT_ID_IOS'' ''GOOGLE_CLIENT_ID_ANDROID''"

definition apple_allowedAudiences :: "env \<Rightarrow> string list" where
  "apple_allowedAudiences e =
     allowedAudiences_of e ''APPLE_AUDIENCE_BUNDLE_ID'' ''APPLE_AUDIENCE_SERVICE_ID''"

definition google_verifyIdToken ::
  "string list \<Rightarrow> google_payload remote_verify \<Rightarrow> string \<Rightarrow> js_error + google_payload" where
  "google_verifyIdToken allowedAudiences jv idToken =
     (if allowedAudiences = [] then Inl (Error ''Google Sign-In not configured'')
      else
        (case (case jv ''https://accounts.google.com'' allowedAudiences idToken of
                 Inl m \<Rightarrow> Inl m
               | Inr googlePayload \<Rightarrow>
                   if \<not> present (g_sub googlePayload) then Inl ''Invalid token: missing subject''
                   else if g_email_verified googlePayload \<noteq> Some True
                   then Inl ''Email not verified''
                   else Inr googlePayload) of
           Inl m \<Rightarrow> Inl (Error (''Google token verification failed: '' @ m))
         | Inr googlePayload \<Rightarrow> Inr googlePayload))"

record user_info =
  info_userId :: "string option"
  info_email :: "string option"
  info_name :: "string option"
  info_picture :: "string option"

definition google_extractUserInfo :: "google_payload \<Rightarrow> user_info" where
  "google_extractUserInfo payload =
     \<lparr> info_userId = g_sub payload, info_email = g_email payload,
       info_name = g_name payload, info_picture = g_picture payload \<rparr>"

datatype bool_or_string = BoolVal bool | StringVal string

record apple_payload =
  a_sub :: "string option"
  a_email :: "string option"
  a_email_verified :: "bool_or_string option"
  a_firstName :: "string option"
  a_lastName :: "string option"

definition toLowerCase :: "string \<Rightarrow> string" where
  "toLowerCase s =
     map (\<lambda>c. if 65 \<le> (of_char c :: nat) \<and> (of_char c :: nat) \<le> 90
              then char_of ((of_char c :: nat) + 32) else c) s"

definition isEmailVerified :: "bool_or_string option \<Rightarrow> bool" where
  "isEmailVerified emailVerified =
     (case emailVerified of
        Some (BoolVal b) \<Rightarrow> b
      | Some (StringVal s) \<Rightarrow> toLowerCase s = ''true''
      | None \<Rightarrow> True)"

definition apple_verifyIdToken ::
  "string list \<Rightarrow> apple_payload remote_verify \<Rightarrow> string \<Rightarrow> js_error + apple_payload" where
  "apple_verifyIdToken allowedAudiences jv idToken =
     (if allowedAudiences = [] then Inl (Error ''Apple Sign-In not configured'')
      else
        (case (case jv ''https://appleid.apple.com'' allowedAudiences idToken of
                 Inl m \<Rightarrow> Inl m
               | Inr applePayload \<Rightarrow>
                   if \<not> present (a_sub applePayload) then Inl ''Invalid token: missing subject''
                   else if present (a_email applePayload)
                           \<and> \<not> isEmailVerified (a_email_verified applePayload)
                   then Inl ''Email not verified''
                   else Inr applePayload) of
           Inl m \<Rightarrow> Inl (Error (''Apple token verification failed: '' @ m))
         | Inr applePayload \<Rightarrow> Inr applePayload))"

text \<open>
  \<open>trim()\<close> removes white space and line terminators at both ends. A character of
  a \<^typ>\<open>string\<close> is a code unit below 256; of the characters \<open>trim\<close> removes these
  are the codes 9 to 13, 32 and 160.
\<close>

definition is_white_space :: "char \<Rightarrow> bool" where
  "is_white_space c = ((of_char c :: nat) \<in> {9, 10, 11, 12, 13, 32, 160})"

definition trim :: "string \<Rightarrow> string" where
  "trim s = rev (dropWhile is_white_space (rev (dropWhile is_white_space s)))"

definition apple_displayName :: "apple_payload \<Rightarrow> string option" where
  "apple_displayName payload =
     (if present (a_firstName payload) \<or> present (a_lastName payload)
      then
        (let parts = filter_Boolean [a_firstName payload, a_lastName payload];
             joined = trim (case parts of [] \<Rightarrow> [] | [x] \<Rightarrow> x | x # y # _ \<Rightarrow> x @ '' '' @ y)
         in if joined = [] then None else Some joined)
      else None)"

definition apple_extractUserInfo :: "apple_payload \<Rightarrow> user_info" where
  "apple_extractUserInfo payload =
     \<lparr> info_userId = a_sub payload,
       info_email = (if present (a_email payload) then a_email payload else None),
       info_name = apple_displayName payload,
       info_picture = None \<rparr>"

section \<open>Token exchange (router.post('/exchange'))\<close>

record exchange_request =
  ex_provider :: "string option"
  ex_idToken :: "string option"

definition tokenExchangeSchema_parse :: "exchange_request \<Rightarrow> js_error + (string \<times> string)" where
  "tokenExchangeSchema_parse body =
     (case (ex_provider body, ex_idToken body) of
        (Some p, Some t) \<Rightarrow>
          if p \<in> {''google'', ''apple''} \<and> 1 \<le> length t then Inr (p, t) else Inl ZodError
      | _ \<Rightarrow> Inl ZodError)"

definition exchange_catch :: "js_error \<Rightarrow> response" where
  "exchange_catch e =
     (case e of
        ZodError \<Rightarrow> (400, ErrorBody ''Invalid request body'' ''VALIDATION_ERROR'')
      | Error m \<Rightarrow>
          if str_includes m ''verification failed'' \<or> str_includes m ''not configured''
          then (401, ErrorBody ''Authentication failed'' ''AUTH_FAILED'')
          else (500, ErrorBody ''Internal server error'' ''INTERNAL_ERROR''))"

text \<open>
  The stages a request goes through are recorded next to the response. The log grows by
  one entry where the handler parses the body, where it asks the verifier whether it is
  configured, where it calls \<open>verifyIdToken\<close>, where it calls \<open>signServerJWT\<close>, and
  where it sends a response.
\<close>

datatype stage = ValidateShape | CheckConfigured | VerifyExternal | MintToken | Respond

record ('sk, 'pk) exchange_services =
  ex_crypto :: "('sk, 'pk) crypto"
  ex_jwt :: jwt_service
  ex_google_audiences :: "string list"
  ex_apple_audiences :: "string list"
  ex_google_verify :: "google_payload remote_verify"
  ex_apple_verify :: "apple_payload remote_verify"

definition respond :: "stage list \<Rightarrow> response \<Rightarrow> response \<times> stage list" where
  "respond log r = (r, log @ [Respond])"

text \<open>
  After a successful verification: the user id is the subject, the token is signed, and
  the success is logged with the first eight characters of the user id before the
  response is sent. Both verifiers return only payloads with a subject, so the branch
  for a missing user id is never taken; there the key import fails as in
  \<open>signServerJWT\<close>, or else the abbreviation fails with a \<open>TypeError\<close>.
\<close>

definition mint_and_respond ::
  "('sk, 'pk) exchange_services \<Rightarrow> int \<Rightarrow> string \<Rightarrow> string option \<Rightarrow> stage list
     \<Rightarrow> response \<times> stage list" where
  "mint_and_respond s now provider userId log =
     (let log_mint = log @ [MintToken] in
      case userId of
        None \<Rightarrow>
          (case getPrivateKey (ex_crypto s) (ex_jwt s) of
             Inl m \<Rightarrow> respond log_mint (exchange_catch (Error (''Failed to sign JWT: '' @ m)))
           | Inr _ \<Rightarrow>
               respond log_mint
                 (exchange_catch
                    (Error ''Cannot read properties of undefined (reading 'substring')'')))
      | Some uid \<Rightarrow>
          (case signServerJWT (ex_crypto s) (ex_jwt s) now uid provider of
             Inl e \<Rightarrow> respond log_mint (exchange_catch e)
           | Inr serverJWT \<Rightarrow>
               respond log_mint (200, TokenBody serverJWT (expiresIn (ex_jwt s)) provider)))"

definition exchange_handler ::
  "('sk, 'pk) exchange_services \<Rightarrow> int \<Rightarrow> exchange_request \<Rightarrow> response \<times> stage list" where
  "exchange_handler s now body =
     (let log_parse = [ValidateShape] in
      case tokenExchangeSchema_parse body of
        Inl e \<Rightarrow> respond log_parse (exchange_catch e)
      | Inr (provider, idToken) \<Rightarrow>
          if provider = ''google'' then
            (let log_conf = log_parse @ [CheckConfigured] in
             if ex_google_audiences s = []
             then respond log_conf
                    (400, ErrorBody ''Google Sign-In not configured'' ''GOOGLE_NOT_CONFIGURED'')
             else
               (let log_verify = log_conf @ [VerifyExternal] in
                case google_verifyIdToken (ex_google_audiences s) (ex_google_verify s) idToken of
                  Inl e \<Rightarrow> respond log_verify (exchange_catch e)
                | Inr googlePayload \<Rightarrow>
                    mint_and_respond s now provider
                      (info_userId (google_extractUserInfo googlePayload)) log_verify))
          else if provider = ''apple'' then
            (let log_conf = log_parse @ [CheckConfigured] in
             if ex_apple_audiences s = []
             then respond log_conf
                    (400, ErrorBody ''Apple Sign-In not configured'' ''APPLE_NOT_CONFIGURED'')
             else
               (let log_verify = log_conf @ [VerifyExternal] in
                case apple_verifyIdToken (ex_apple_audiences s) (ex_apple_verify s) idToken of
                  Inl e \<Rightarrow> respond log_verify (exchange_catch e)
                | Inr applePayload \<Rightarrow>
                    mint_and_respond s now provider
                      (info_userId (apple_extractUserInfo applePayload)) log_verify))
          else respond log_parse
                 (400, ErrorBody ''Unsupported provider'' ''UNSUPPORTED_PROVIDER''))"

section \<open>Streaming relay (server/dist/providers/openai.js, local.js)\<close>

subsection \<open>Bytes, text and parsed JSON\<close>

text \<open>
  An upstream chunk is a \<open>Buffer\<close>, a list of bytes. Text is a list of code points,
  so that characters beyond ASCII can be written down; \<open>str\<close> turns a literal into text.
\<close>

type_synonym bytes = "nat list"
type_synonym ustring = "nat list"

definition str :: "string \<Rightarrow> ustring" where
  "str s = map of_char s"

text \<open>
  \<open>chunk.toString()\<close> is the runtime's UTF-8 decoding of that one buffer: every byte
  sequence that is not a complete, well-formed character becomes the replacement
  character U+FFFD, also a sequence cut off by the end of the buffer. The decoder state
  is the code point collected so far, the number of continuation bytes still needed, and
  the range allowed for the next byte.
\<close>

type_synonym utf8_state = "nat \<times> nat \<times> nat \<times> nat"

definition utf8_init :: utf8_state where
  "utf8_init = (0, 0, 128, 191)"

definition utf8_lead :: "nat \<Rightarrow> ustring \<times> utf8_state" where
  "utf8_lead b =
     (if b \<le> 127 then ([b], utf8_init)
      else if 194 \<le> b \<and> b \<le> 223 then ([], (b mod 32, 1, 128, 191))
      else if 224 \<le> b \<and> b \<le> 239
      then ([], (b mod 16, 2, (if b = 224 then 160 else 128), (if b = 237 then 159 else 191)))
      else if 240 \<le> b \<and> b \<le> 244
      then ([], (b mod 8, 3, (if b = 240 then 144 else 128), (if b = 244 then 143 else 191)))
      else ([65533], utf8_init))"

fun utf8_run :: "utf8_state \<Rightarrow> bytes \<Rightarrow> ustring" where
  "utf8_run (cp, need, lo, hi) [] = (if need = 0 then [] else [65533])"
| "utf8_run (cp, need, lo, hi) (b # bs) =
     (if need = 0 then fst (utf8_lead b) @ utf8_run (snd (utf8_lead b)) bs
      else if b < lo \<or> hi < b
      then 65533 # fst (utf8_lead b) @ utf8_run (snd (utf8_lead b)) bs
      else if need = 1 then (cp * 64 + b mod 64) # utf8_run utf8_init bs
      else utf8_run (cp * 64 + b mod 64, need - 1, 128, 191) bs)"

definition toString :: "bytes \<Rightarrow> ustring" where
  "toString chunk = utf8_run utf8_init chunk"

text \<open>
  A value produced by \<open>JSON.parse\<close>. \<open>JSON.parse\<close> itself is an argument of the
  model: a function from text to a value, \<open>None\<close> when it throws a \<open>SyntaxError\<close>.
\<close>

datatype json =
    JNull
  | JBool bool
  | JNum int
  | JStr ustring
  | JArr "json list"
  | JObj "(ustring \<times> json) list"

type_synonym json_parse = "ustring \<Rightarrow> json option"

text \<open>
  Property access. A value that may be \<open>undefined\<close> is a \<open>json option\<close>.
  \<open>get_prop v k\<close> is \<open>v.k\<close> for a value that is not \<open>null\<close> and a key that is
  not an index (the last of several equal keys of an object wins); \<open>index0 v\<close> is
  \<open>v[0]\<close>; \<open>opt_chain v k\<close> is \<open>v?.k\<close>; \<open>truthy\<close> is the test made by \<open>if (v)\<close>.
\<close>

fun get_prop :: "json \<Rightarrow> ustring \<Rightarrow> json option" where
  "get_prop (JObj kvs) k = map_of (rev kvs) k"
| "get_prop _ k = None"

fun index0 :: "json \<Rightarrow> json option" where
  "index0 (JArr []) = None"
| "index0 (JArr (x # xs)) = Some x"
| "index0 (JStr []) = None"
| "index0 (JStr (c # cs)) = Some (JStr [c])"
| "index0 (JObj kvs) = map_of (rev kvs) (str ''0'')"
| "index0 _ = None"

definition opt_chain :: "json option \<Rightarrow> ustring \<Rightarrow> json option" where
  "opt_chain v k = (case v of None \<Rightarrow> None | Some j \<Rightarrow> if j = JNull then None else get_prop j k)"

fun truthy :: "json option \<Rightarrow> bool" where
  "truthy None = False"
| "truthy (Some JNull) = False"
| "truthy (Some (JBool b)) = b"
| "truthy (Some (JNum n)) = (n \<noteq> 0)"
| "truthy (Some (JStr s)) = (s \<noteq> [])"
| "truthy (Some (JArr xs)) = True"
| "truthy (Some (JObj kvs)) = True"

subsection \<open>The response being written\<close>

text \<open>
  The outward response is the list of events written so far and whether \<open>res.end()\<close>
  has been called. Each event is written by two consecutive \<open>res.write\<close> calls (the
  \<open>event:\<close> line and the \<open>data:\<close> line). Nothing is sent by a write after the end.
\<close>

datatype sse_event = Connected | Chunk json | Done | StreamError

record res =
  written :: "sse_event list"
  ended :: bool

definition res_write :: "sse_event \<Rightarrow> res \<Rightarrow> res" where
  "res_write ev r = (if ended r then r else r \<lparr> written := written r @ [ev] \<rparr>)"

definition res_end :: "res \<Rightarrow> res" where
  "res_end r = r \<lparr> ended := True \<rparr>"

subsection \<open>One line of the upstream\<close>

text \<open>
  What a complete line makes the handler do: the content to send as a \<open>chunk\<close> event, if
  any, and whether the line ends the stream (then \<open>done\<close> is written, the response is
  ended and the handler returns). A line that does not parse, or whose parsed value makes
  the property access throw, is caught and skipped.
\<close>

type_synonym line_handler = "ustring \<Rightarrow> json option \<times> bool"

definition openai_line :: "json_parse \<Rightarrow> line_handler" where
  "openai_line parse line =
     (if startsWith line (str ''data: '') then
        (let data = drop 6 line in
         if data = str ''[DONE]'' then (None, True)
         else
           (case parse data of
              None \<Rightarrow> (None, False)
            | Some parsed \<Rightarrow>
                if parsed = JNull then (None, False)
                else
                  (case get_prop parsed (str ''choices'') of
                     None \<Rightarrow> (None, False)
                   | Some choices \<Rightarrow>
                       if choices = JNull then (None, False)
                       else
                         (let content = opt_chain (opt_chain (index0 choices) (str ''delta''))
                                          (str ''content'')
                          in (if truthy content then content else None,
                              truthy (opt_chain (index0 choices) (str ''finish_reason'')))))))
      else (None, False))"

text \<open>\<open>line.trim()\<close> is non-empty when some character of the line is not white space.\<close>

definition is_white :: "nat \<Rightarrow> bool" where
  "is_white c =
     (c \<in> {9, 10, 11, 12, 13, 32, 160, 5760, 8232, 8233, 8239, 8287, 12288, 65279}
      \<or> (8192 \<le> c \<and> c \<le> 8202))"

definition ollama_line :: "json_parse \<Rightarrow> line_handler" where
  "ollama_line parse line =
     (if list_ex (\<lambda>c. \<not> is_white c) line then
        (case parse line of
           None \<Rightarrow> (None, False)
         | Some parsed \<Rightarrow>
             if parsed = JNull then (None, False)
             else
               (let content = opt_chain (get_prop parsed (str ''message'')) (str ''content'')
                in (if truthy content then content else None,
                    truthy (get_prop parsed (str ''done'')))))
      else (None, False))"

subsection \<open>The data, end and error handlers\<close>

text \<open>\<open>buffer.split('\n')\<close>: at least one piece, the last one the text after the last newline.\<close>

fun split_lines :: "ustring \<Rightarrow> ustring list" where
  "split_lines [] = [[]]"
| "split_lines (c # cs) =
     (if c = 10 then [] # split_lines cs
      else (case split_lines cs of [] \<Rightarrow> [[c]] | l # ls \<Rightarrow> (c # l) # ls))"

fun process_lines :: "line_handler \<Rightarrow> ustring list \<Rightarrow> res \<Rightarrow> res" where
  "process_lines h [] r = r"
| "process_lines h (line # lines) r =
     (let r1 = (case fst (h line) of None \<Rightarrow> r | Some c \<Rightarrow> res_write (Chunk c) r)
      in if snd (h line) then res_end (res_write Done r1)
         else process_lines h lines r1)"

record relay =
  buffer ::ustring
  out :: res

text \<open>
  The \<open>data\<close> handler, on decoded text and on a buffer: the chunk is appended to the
  buffer, the buffer is split, the last piece is kept, and the complete lines are handled
  in order.
\<close>

definition on_text :: "line_handler \<Rightarrow> relay \<Rightarrow> ustring \<Rightarrow> relay" where
  "on_text h st t =
     (let lines = split_lines (buffer st @ t)
      in \<lparr> buffer = last lines, out = process_lines h (butlast lines) (out st) \<rparr>)"

definition on_data :: "line_handler \<Rightarrow> relay \<Rightarrow> bytes \<Rightarrow> relay" where
  "on_data h st chunk = on_text h st (toString chunk)"

definition on_end :: "relay \<Rightarrow> res" where
  "on_end st = res_end (res_write Done (out st))"

definition on_error :: "relay \<Rightarrow> res" where
  "on_error st = res_end (res_write StreamError (out st))"

definition relay_start :: relay where
  "relay_start = \<lparr> buffer = [], out = \<lparr> written = [Connected], ended = False \<rparr> \<rparr>"

text \<open>
  A whole stream: the upstream delivers its chunks one \<open>data\<close> event each and then
  closes. The result is what was sent to the client.
\<close>

definition relay_text :: "line_handler \<Rightarrow> ustring list \<Rightarrow> sse_event list" where
  "relay_text h ts = written (on_end (foldl (on_text h) relay_start ts))"

definition relay_stream :: "line_handler \<Rightarrow> bytes list \<Rightarrow> sse_event list" where
  "relay_stream h chunks = written (on_end (foldl (on_data h) relay_start chunks))"

definition streamResponse :: "json_parse \<Rightarrow> bytes list \<Rightarrow> sse_event list" where
  "streamResponse parse chunks = relay_stream (openai_line parse) chunks"

definition streamOllamaResponse :: "json_parse \<Rightarrow> bytes list \<Rightarrow> sse_event list" where
  "streamOllamaResponse parse chunks = relay_stream (ollama_line parse) chunks"

text \<open>The content of the \<open>chunk\<close> events of a response, in order.\<close>

fun chunk_contents :: "sse_event list \<Rightarrow> json list" where
  "chunk_contents [] = []"
| "chunk_contents (Chunk c # es) = c # chunk_contents es"
| "chunk_contents (_ # es) = chunk_contents es"

text \<open>
  The state of a response with respect to its terminal event: once ended, it has exactly
  one \<open>done\<close> event and that is the last one written; before, it has none.
\<close>

definition done_once :: "res \<Rightarrow> bool" where
  "done_once r = (if ended r then written r \<noteq> [] \<and> last (written r) = Done
                     \<and> count_list (written r) Done = 1
                  else count_list (written r) Done = 0)"

section \<open>Example inputs\<close>

text \<open>Concrete requests, configurations and tokens on which the theorems are evaluated.\<close>

definition example_messages :: "message list" where
  "example_messages = [\<lparr> role = ''user'', content = ''Dear Ann'' \<rparr>]"

definition example_request :: "string option \<Rightarrow> ai_request" where
  "example_request p = \<lparr> req_messages = example_messages, req_provider = p \<rparr>"

definition example_config :: provider_config where
  "example_config =
     construct_providers [''ANTHROPIC_API_KEY'' \<mapsto> ''sk-test'', ''LOCAL_PROVIDER'' \<mapsto> ''none'']"

definition unconfigured :: provider_config where
  "unconfigured = construct_providers [''LOCAL_PROVIDER'' \<mapsto> ''none'']"

definition example_upstream :: upstream where
  "example_upstream p ms = Inr ''Dear friend''"

definition example_conversation :: "message list" where
  "example_conversation =
     [\<lparr> role = ''system'', content = ''Be kind'' \<rparr>,
      \<lparr> role = ''user'', content = ''Dear Ann'' \<rparr>,
      \<lparr> role = ''system'', content = ''Be brief'' \<rparr>,
      \<lparr> role = ''assistant'', content = ''Dear friend'' \<rparr>]"

text \<open>
  A token service whose key text \<open>PEM\<close> imports, and a stand-in for the cryptography
  that knows one token: \<open>token-1\<close> is the signature of \<open>example_claims\<close>.
\<close>

definition example_jwt :: jwt_service where
  "example_jwt = \<lparr> privateKey = ''PEM'', issuer = ''https://unsent-letters.example'',
                    audience = ''unsent-letters-mobile'', expiresIn = Some 3600 \<rparr>"

definition example_claims :: claims where
  "example_claims = \<lparr> claim_sub = ''user-1'', claim_provider = ''google'', claim_iat = 1000,
                       claim_exp = Some 4600, claim_iss = ''https://unsent-letters.example'',
                       claim_aud = ''unsent-letters-mobile'' \<rparr>"

definition example_crypto :: "(string, string) crypto" where
  "example_crypto =
     \<lparr> importKey = (\<lambda>pem. if pem = ''PEM'' then Inr ''private'' else Inl ''Invalid keyData''),
       exportPublic = (\<lambda>k. Inr ''public''),
       jws_sign = (\<lambda>k c. if c = example_claims then Inr ''token-1'' else Inr ''token-2''),
       jws_open = (\<lambda>pk t. if t = ''token-1'' then Inr example_claims
                           else Inl ''signature verification failed'') \<rparr>"

definition example_google_payload :: google_payload where
  "example_google_payload =
     \<lparr> g_sub = Some ''user-1'', g_email = Some ''ann@example.com'',
       g_email_verified = Some True, g_name = None, g_picture = None \<rparr>"

definition example_apple_payload :: apple_payload where
  "example_apple_payload =
     \<lparr> a_sub = Some ''apple-1'', a_email = Some ''ann@icloud.com'',
       a_email_verified = Some (StringVal ''TRUE''), a_firstName = None, a_lastName = None \<rparr>"

text \<open>
  The services of the exchange endpoint, with the key text and the payload that the
  Google token \<open>id-1\<close> verifies to left open.
\<close>

definition example_services ::
  "string \<Rightarrow> google_payload \<Rightarrow> (string, string) exchange_services" where
  "example_services pem gp =
     \<lparr> ex_crypto = example_crypto,
       ex_jwt = example_jwt \<lparr> privateKey := pem \<rparr>,
       ex_google_audiences = [''ios-client''],
       ex_apple_audiences = [],
       ex_google_verify = (\<lambda>iss auds t. if t = ''id-1'' then Inr gp
                                          else Inl ''signature verification failed''),
       ex_apple_verify = (\<lambda>iss auds t. Inl ''signature verification failed'') \<rparr>"

definition example_exchange :: exchange_request where
  "example_exchange = \<lparr> ex_provider = Some ''google'', ex_idToken = Some ''id-1'' \<rparr>"

text \<open>
  An upstream line whose content is the letter e with an acute accent, two bytes in
  UTF-8 (195, 169), cut between those two bytes; and the values \<open>JSON.parse\<close> returns
  for the two texts the relay can assemble from it.
\<close>

definition delta_prefix :: string where
  "delta_prefix = ''{\"choices\":[{\"delta\":{\"content\":\"''"

definition delta_suffix :: string where
  "delta_suffix = ''\"}}]}''"

definition upstream_head :: bytes where
  "upstream_head = str ''data: '' @ str delta_prefix @ [195]"

definition upstream_tail :: bytes where
  "upstream_tail = [169] @ str delta_suffix @ [10]"

definition delta_json :: "ustring \<Rightarrow> json" where
  "delta_json c =
     JObj [(str ''choices'', JArr [JObj [(str ''delta'', JObj [(str ''content'', JStr c)])]])]"

definition example_parse :: json_parse where
  "example_parse t =
     (if t = str delta_prefix @ [233] @ str delta_suffix then Some (delta_json [233])
      else if t = str delta_prefix @ [65533, 65533] @ str delta_suffix
      then Some (delta_json [65533, 65533])
      else None)"

section \<open>Facts about strings\<close>

lemma startsWith_append: "startsWith (p @ s) p"
  by (induction p) auto

lemma startsWith_iff: "startsWith s p \<longleftrightarrow> (\<exists>t. s = p @ t)"
proof (induction s p rule: startsWith.induct)
  case (1 s)
  show ?case by simp
next
  case (2 p ps)
  show ?case by simp
next
  case (3 c cs p ps)
  then show ?case by auto
qed

lemma str_includes_Nil [simp]: "str_includes s []"
  by (cases s) auto

lemma str_includes_append_left: "str_includes b n \<Longrightarrow> str_includes (a @ b) n"
  by (induction a) auto

lemma str_includes_prefix: "str_includes (n @ b) n"
proof (cases n)
  case Nil
  then show ?thesis by simp
next
  case (Cons x xs)
  have "startsWith ((x # xs) @ b) (x # xs)" by (rule startsWith_append)
  with Cons show ?thesis by simp
qed

lemma str_includes_middle: "str_includes (a @ n @ b) n"
  by (simp add: str_includes_append_left str_includes_prefix)

lemma too_long_includes:
  "str_includes (''Letter content too long. Maximum '' @ s) ''content too long''"
proof -
  have "''Letter content too long. Maximum '' @ s
        = ''Letter '' @ ''content too long'' @ (''. Maximum '' @ s)" by simp
  then show ?thesis by (simp only: str_includes_middle)
qed

lemma not_configured_includes:
  "str_includes (not_configured_message p) ''not configured''"
  by (cases p) simp_all

lemma not_configured_not_too_long:
  "\<not> str_includes (not_configured_message p) ''content too long''"
  by (cases p) simp_all

lemma verification_failed_includes:
  "str_includes (''Google token verification failed: '' @ m) ''verification failed''"
  "str_includes (''Apple token verification failed: '' @ m) ''verification failed''"
proof -
  have "''Google token verification failed: '' @ m
        = ''Google token '' @ ''verification failed'' @ ('': '' @ m)" by simp
  then show "str_includes (''Google token verification failed: '' @ m) ''verification failed''"
    by (simp only: str_includes_middle)
  have "''Apple token verification failed: '' @ m
        = ''Apple token '' @ ''verification failed'' @ ('': '' @ m)" by simp
  then show "str_includes (''Apple token verification failed: '' @ m) ''verification failed''"
    by (simp only: str_includes_middle)
qed

lemma toLowerCase_examples:
  "toLowerCase ''TRUE'' = ''true''" "toLowerCase ''True'' = ''true''"
  "toLowerCase ''FALSE'' = ''false''" "toLowerCase ''false'' = ''false''"
  by code_simp+

section \<open>The AI reply routes\<close>

lemma example_request_parse:
  "aiRequestSchema_parse (example_request None) = Inr (example_messages, None)"
  "aiRequestSchema_parse (example_request (Some ''local''))
     = Inr (example_messages, Some ''local'')"
  by (simp_all add: aiRequestSchema_parse_def example_request_def example_messages_def
      messageSchema_ok_def)

lemma example_validate: "validateContentLength (Some 6000) example_messages = Inr ()"
  by (simp add: validateContentLength_def totalContent_def example_messages_def)

lemma example_config_simps:
  "isConfigured example_config AnthropicProvider"
  "\<not> isConfigured example_config OpenAIProvider"
  "\<not> isConfigured example_config LocalAIProvider"
  by (simp_all add: example_config_def construct_providers_def env_or_def local_baseUrl_of_def)

lemma unconfigured_simps:
  "\<not> isConfigured unconfigured AnthropicProvider"
  "\<not> isConfigured unconfigured OpenAIProvider"
  "\<not> isConfigured unconfigured LocalAIProvider"
  by (simp_all add: unconfigured_def construct_providers_def env_or_def local_baseUrl_of_def)

lemma getAIProvider_named: "getAIProvider c (Some (provider_name p)) = Inr p"
  by (cases p) (simp_all add: getAIProvider_def)

subsection \<open>Content ceiling\<close>

text \<open>
  Claim C7. For a request body that passed the schema, with \<open>messages\<close> its message list:
  when the user-role contents, joined, are longer than the configured ceiling \<open>n\<close>, both
  \<open>POST /reply\<close> and \<open>POST /reply/stream\<close> answer 400 with code \<open>CONTENT_TOO_LONG\<close>
  and no request reaches any provider, whatever providers are configured and whatever the
  upstream would answer; when the joined length is at most \<open>n\<close> the check passes and
  throws nothing (it returns no value and leaves \<open>messages\<close> as they are).
\<close>

theorem content_ceiling:
  assumes "aiRequestSchema_parse body = Inr (messages, rp)"
  shows "(int (length (totalContent messages)) > n \<longrightarrow>
            reply_handler (Some n) c up body =
              ((400, ErrorBody (''Letter content too long. Maximum '' @ show_int n
                                @ '' characters allowed.'') ''CONTENT_TOO_LONG''), [])
          \<and> stream_handler (Some n) c body =
              ((400, ErrorBody (''Letter content too long. Maximum '' @ show_int n
                                @ '' characters allowed.'') ''CONTENT_TOO_LONG''), []))
       \<and> (int (length (totalContent messages)) \<le> n \<longrightarrow>
            validateContentLength (Some n) messages = Inr ())"
  using assms
  by (simp add: reply_handler_def stream_handler_def validateContentLength_def reply_catch_def
      stream_catch_def too_long_includes)

theorem content_ceiling_witness:
  "aiRequestSchema_parse (example_request None) = Inr (example_messages, None)
   \<and> int (length (totalContent example_messages)) > 3
   \<and> reply_handler (Some 3) example_config example_upstream (example_request None) =
       ((400, ErrorBody ''Letter content too long. Maximum 3 characters allowed.''
                ''CONTENT_TOO_LONG''), [])
   \<and> stream_handler (Some 3) example_config (example_request None) =
       ((400, ErrorBody ''Letter content too long. Maximum 3 characters allowed.''
                ''CONTENT_TOO_LONG''), [])
   \<and> int (length (totalContent example_messages)) \<le> 6000
   \<and> validateContentLength (Some 6000) example_messages = Inr ()"
proof -
  have len: "length (totalContent example_messages) = 8"
    by (simp add: totalContent_def example_messages_def)
  have s: "show_int 3 = ''3''"
    by code_simp
  from content_ceiling [OF example_request_parse(1), of 3 example_config example_upstream]
       content_ceiling [OF example_request_parse(1), of 6000 example_config example_upstream]
       example_request_parse(1) len s
  show ?thesis by simp
qed

subsection \<open>Provider selection\<close>

lemma first_configured_Some:
  assumes "first_configured c = Some p"
  shows "getAIProvider c None = Inr p" and "isConfigured c p"
  using assms
  by (auto simp: first_configured_def priority_order_def getAIProvider_def
      simp del: isConfigured.simps split: if_splits)

lemma first_configured_None:
  assumes "first_configured c = None"
  shows "getAIProvider c None = Inl (Error ''No AI provider configured'')"
  using assms
  by (auto simp: first_configured_def priority_order_def getAIProvider_def
      simp del: isConfigured.simps split: if_splits)

lemma provider_label_simps:
  "provider_label None = ''auto''" "provider_label (Some (provider_name p)) = provider_name p"
  by (cases p; simp add: provider_label_def)+

text \<open>
  What the two handlers do once the body is parsed, the content check has passed and
  \<open>getAIProvider\<close> has returned \<open>p\<close>.
\<close>

lemma handlers_selected:
  assumes "aiRequestSchema_parse body = Inr (messages, rp)"
    and "validateContentLength mx messages = Inr ()"
    and "getAIProvider c rp = Inr p"
  shows "reply_handler mx c up body =
           (case getResponse c up p (addSystemPrompt messages) of
              (Inl e, fx) \<Rightarrow> (reply_catch e, fx)
            | (Inr reply, fx) \<Rightarrow> ((200, ReplyBody reply (provider_label rp)), fx))"
    and "stream_handler mx c body =
           (case streamResponse_call c p (addSystemPrompt messages) of
              (Inl e, fx) \<Rightarrow> (stream_catch e, fx)
            | (Inr u, fx) \<Rightarrow> ((200, EventStream), fx))"
  using assms by (simp_all add: reply_handler_def stream_handler_def)

lemma handlers_used:
  assumes "aiRequestSchema_parse body = Inr (messages, rp)"
    and "validateContentLength mx messages = Inr ()"
    and "getAIProvider c rp = Inr p"
    and "isConfigured c p"
  shows "snd (reply_handler mx c up body) = [ProviderRequest p (addSystemPrompt messages)]"
    and "up p (addSystemPrompt messages) = Inr reply \<Longrightarrow>
           fst (reply_handler mx c up body) = (200, ReplyBody reply (provider_label rp))"
    and "stream_handler mx c body =
           ((200, EventStream), [ProviderStream p (addSystemPrompt messages)])"
  using assms(4)
  by (simp_all add: handlers_selected [OF assms(1-3)] getResponse_def streamResponse_call_def
      del: isConfigured.simps split: sum.splits)

lemma handlers_unconfigured:
  assumes "aiRequestSchema_parse body = Inr (messages, rp)"
    and "validateContentLength mx messages = Inr ()"
    and "getAIProvider c rp = Inr p"
    and "\<not> isConfigured c p"
  shows "reply_handler mx c up body =
           ((503, ErrorBody ''AI service temporarily unavailable'' ''SERVICE_UNAVAILABLE''), [])"
    and "stream_handler mx c body =
           ((503, ErrorBody ''AI service temporarily unavailable'' ''SERVICE_UNAVAILABLE''), [])"
  using assms(4)
  by (simp_all add: handlers_selected [OF assms(1-3)] getResponse_def streamResponse_call_def
      reply_catch_def stream_catch_def not_configured_includes not_configured_not_too_long
      del: isConfigured.simps)

lemma handlers_none_configured:
  assumes "aiRequestSchema_parse body = Inr (messages, None)"
    and "validateContentLength mx messages = Inr ()"
    and "first_configured c = None"
  shows "reply_handler mx c up body =
           ((500, ErrorBody ''Failed to generate AI response'' ''AI_ERROR''), [])"
    and "stream_handler mx c body =
           ((500, ErrorBody ''Failed to start AI streaming'' ''STREAM_ERROR''), [])"
  using assms(1,2) first_configured_None [OF assms(3)]
  by (simp_all add: reply_handler_def stream_handler_def reply_catch_def stream_catch_def)

lemma example_length: "length (totalContent example_messages) = 8"
  by (simp add: totalContent_def example_messages_def)

lemma show_int_3: "show_int 3 = ''3''"
  by code_simp

text \<open>
  Claim C6 as stated fails for an authenticated request that does not get as far as the
  provider: with a ceiling of 3 characters, a letter of 8 characters that names the local
  provider, which is not configured, is answered 400 \<open>CONTENT_TOO_LONG\<close>, not 503
  \<open>SERVICE_UNAVAILABLE\<close>.
\<close>

theorem content_check_first_counterexample:
  "aiRequestSchema_parse (example_request (Some ''local''))
     = Inr (example_messages, Some ''local'')
   \<and> \<not> isConfigured example_config LocalAIProvider
   \<and> reply_handler (Some 3) example_config example_upstream (example_request (Some ''local'')) =
       ((400, ErrorBody ''Letter content too long. Maximum 3 characters allowed.''
                ''CONTENT_TOO_LONG''), [])
   \<and> stream_handler (Some 3) example_config (example_request (Some ''local'')) =
       ((400, ErrorBody ''Letter content too long. Maximum 3 characters allowed.''
                ''CONTENT_TOO_LONG''), [])"
proof -
  have v: "validateContentLength (Some 3) example_messages =
             Inl (Error (''Letter content too long. Maximum '' @ show_int 3
                         @ '' characters allowed.''))"
    by (simp add: validateContentLength_def example_length)
  have "reply_handler (Some 3) example_config example_upstream (example_request (Some ''local''))
        = ((400, ErrorBody (''Letter content too long. Maximum '' @ show_int 3
                            @ '' characters allowed.'') ''CONTENT_TOO_LONG''), [])"
    by (simp add: reply_handler_def example_request_parse(2) v reply_catch_def too_long_includes)
  moreover
  have "stream_handler (Some 3) example_config (example_request (Some ''local''))
        = ((400, ErrorBody (''Letter content too long. Maximum '' @ show_int 3
                            @ '' characters allowed.'') ''CONTENT_TOO_LONG''), [])"
    by (simp add: stream_handler_def example_request_parse(2) v stream_catch_def too_long_includes)
  ultimately show ?thesis
    using example_request_parse(2) example_config_simps(3)
    by (simp add: show_int_3 del: isConfigured.simps)
qed

text \<open>
  Claim C6, amended. For an authenticated request that passed the schema and the content
  check: with no provider named, the first configured provider \<open>p\<close> of the priority
  order OpenAI, Anthropic, local is the one selected and used: the reply route sends its
  one provider request to \<open>p\<close> and answers 200 with \<open>p\<close>'s reply, the stream route
  starts its one stream on \<open>p\<close>; when none is configured the request fails on both routes
  (500) with no provider contacted. With a provider named, that provider is selected
  whatever else is configured, and is used in the same way when it is configured; when it
  is not configured the request is answered 503 \<open>SERVICE_UNAVAILABLE\<close> on both routes with
  no provider contacted.
\<close>

theorem provider_selection:
  assumes "aiRequestSchema_parse body = Inr (messages, rp)"
    and "validateContentLength mx messages = Inr ()"
  shows "(rp = None \<and> first_configured c = Some p \<longrightarrow>
            getAIProvider c rp = Inr p
          \<and> snd (reply_handler mx c up body) = [ProviderRequest p (addSystemPrompt messages)]
          \<and> (up p (addSystemPrompt messages) = Inr reply \<longrightarrow>
               fst (reply_handler mx c up body) = (200, ReplyBody reply ''auto''))
          \<and> stream_handler mx c body =
               ((200, EventStream), [ProviderStream p (addSystemPrompt messages)]))
       \<and> (rp = None \<and> first_configured c = None \<longrightarrow>
            reply_handler mx c up body =
              ((500, ErrorBody ''Failed to generate AI response'' ''AI_ERROR''), [])
          \<and> stream_handler mx c body =
              ((500, ErrorBody ''Failed to start AI streaming'' ''STREAM_ERROR''), []))
       \<and> (rp = Some (provider_name p) \<longrightarrow>
            getAIProvider c rp = Inr p
          \<and> (isConfigured c p \<longrightarrow>
                 snd (reply_handler mx c up body)
                   = [ProviderRequest p (addSystemPrompt messages)]
               \<and> (up p (addSystemPrompt messages) = Inr reply \<longrightarrow>
                    fst (reply_handler mx c up body) = (200, ReplyBody reply (provider_name p)))
               \<and> stream_handler mx c body =
                    ((200, EventStream), [ProviderStream p (addSystemPrompt messages)]))
          \<and> (\<not> isConfigured c p \<longrightarrow>
                 reply_handler mx c up body =
                   ((503, ErrorBody ''AI service temporarily unavailable''
                            ''SERVICE_UNAVAILABLE''), [])
               \<and> stream_handler mx c body =
                   ((503, ErrorBody ''AI service temporarily unavailable''
                            ''SERVICE_UNAVAILABLE''), [])))"
proof -
  have a: "getAIProvider c rp = Inr p
          \<and> snd (reply_handler mx c up body) = [ProviderRequest p (addSystemPrompt messages)]
          \<and> (up p (addSystemPrompt messages) = Inr reply \<longrightarrow>
               fst (reply_handler mx c up body) = (200, ReplyBody reply ''auto''))
          \<and> stream_handler mx c body =
               ((200, EventStream), [ProviderStream p (addSystemPrompt messages)])"
    if h: "rp = None \<and> first_configured c = Some p"
  proof -
    from h have g: "getAIProvider c rp = Inr p" and i: "isConfigured c p"
      using first_configured_Some [of c p] by simp_all
    from handlers_used [OF assms g i] g h show ?thesis
      by (simp add: provider_label_simps del: isConfigured.simps)
  qed
  have b: "reply_handler mx c up body =
              ((500, ErrorBody ''Failed to generate AI response'' ''AI_ERROR''), [])
          \<and> stream_handler mx c body =
              ((500, ErrorBody ''Failed to start AI streaming'' ''STREAM_ERROR''), [])"
    if h: "rp = None \<and> first_configured c = None"
  proof -
    from h assms(1) have p: "aiRequestSchema_parse body = Inr (messages, None)"
      and f: "first_configured c = None" by simp_all
    from handlers_none_configured [OF p assms(2) f] show ?thesis by simp
  qed
  have g: "getAIProvider c rp = Inr p" if "rp = Some (provider_name p)"
    using that by (simp add: getAIProvider_named)
  have d: "snd (reply_handler mx c up body) = [ProviderRequest p (addSystemPrompt messages)]
         \<and> (up p (addSystemPrompt messages) = Inr reply \<longrightarrow>
              fst (reply_handler mx c up body) = (200, ReplyBody reply (provider_name p)))
         \<and> stream_handler mx c body =
              ((200, EventStream), [ProviderStream p (addSystemPrompt messages)])"
    if r: "rp = Some (provider_name p)" and i: "isConfigured c p"
    using handlers_used [OF assms g [OF r] i] r
    by (simp add: provider_label_simps del: isConfigured.simps)
  have e: "reply_handler mx c up body =
             ((503, ErrorBody ''AI service temporarily unavailable'' ''SERVICE_UNAVAILABLE''), [])
         \<and> stream_handler mx c body =
             ((503, ErrorBody ''AI service temporarily unavailable'' ''SERVICE_UNAVAILABLE''), [])"
    if r: "rp = Some (provider_name p)" and n: "\<not> isConfigured c p"
    using handlers_unconfigured [OF assms g [OF r] n] by simp
  from a b g d e show ?thesis by blast
qed

lemma example_first_configured:
  "first_configured example_config = Some AnthropicProvider"
  "first_configured unconfigured = None"
  by (simp_all add: first_configured_def priority_order_def example_config_simps
      unconfigured_simps del: isConfigured.simps)

lemma example_addSystemPrompt:
  "addSystemPrompt example_messages =
     [\<lparr> role = ''system'', content = systemPrompt \<rparr>,
      \<lparr> role = ''user'', content = ''Dear Ann'' \<rparr>]"
  by (simp add: addSystemPrompt_def example_messages_def)

lemma example_request_parse_anthropic:
  "aiRequestSchema_parse (example_request (Some ''anthropic''))
     = Inr (example_messages, Some ''anthropic'')"
  by (simp add: aiRequestSchema_parse_def example_request_def example_messages_def
      messageSchema_ok_def)

theorem provider_selection_witness:
  "aiRequestSchema_parse (example_request None) = Inr (example_messages, None)
   \<and> validateContentLength (Some 6000) example_messages = Inr ()
   \<and> first_configured example_config = Some AnthropicProvider
   \<and> snd (reply_handler (Some 6000) example_config example_upstream (example_request None))
       = [ProviderRequest AnthropicProvider (addSystemPrompt example_messages)]
   \<and> example_upstream AnthropicProvider (addSystemPrompt example_messages) = Inr ''Dear friend''
   \<and> fst (reply_handler (Some 6000) example_config example_upstream (example_request None))
       = (200, ReplyBody ''Dear friend'' ''auto'')
   \<and> stream_handler (Some 6000) example_config (example_request None)
       = ((200, EventStream), [ProviderStream AnthropicProvider (addSystemPrompt example_messages)])
   \<and> first_configured unconfigured = None
   \<and> reply_handler (Some 6000) unconfigured example_upstream (example_request None) =
       ((500, ErrorBody ''Failed to generate AI response'' ''AI_ERROR''), [])
   \<and> stream_handler (Some 6000) unconfigured (example_request None) =
       ((500, ErrorBody ''Failed to start AI streaming'' ''STREAM_ERROR''), [])
   \<and> aiRequestSchema_parse (example_request (Some ''anthropic''))
       = Inr (example_messages, Some ''anthropic'')
   \<and> isConfigured example_config AnthropicProvider
   \<and> fst (reply_handler (Some 6000) example_config example_upstream
            (example_request (Some ''anthropic'')))
       = (200, ReplyBody ''Dear friend'' ''anthropic'')
   \<and> aiRequestSchema_parse (example_request (Some ''local''))
       = Inr (example_messages, Some ''local'')
   \<and> \<not> isConfigured example_config LocalAIProvider
   \<and> reply_handler (Some 6000) example_config example_upstream (example_request (Some ''local''))
       = ((503, ErrorBody ''AI service temporarily unavailable'' ''SERVICE_UNAVAILABLE''), [])
   \<and> stream_handler (Some 6000) example_config (example_request (Some ''local''))
       = ((503, ErrorBody ''AI service temporarily unavailable'' ''SERVICE_UNAVAILABLE''), [])"
proof -
  note p1 = example_request_parse(1) and p2 = example_request_parse(2)
    and p3 = example_request_parse_anthropic
  have u: "example_upstream AnthropicProvider (addSystemPrompt example_messages)
           = Inr ''Dear friend''"
    by (simp add: example_upstream_def)
  from provider_selection [OF p1 example_validate, where c = example_config
         and up = example_upstream and p = AnthropicProvider and reply = "''Dear friend''",
         THEN conjunct1] example_first_configured(1) u
  have 1: "snd (reply_handler (Some 6000) example_config example_upstream (example_request None))
       = [ProviderRequest AnthropicProvider (addSystemPrompt example_messages)]
     \<and> fst (reply_handler (Some 6000) example_config example_upstream (example_request None))
       = (200, ReplyBody ''Dear friend'' ''auto'')
     \<and> stream_handler (Some 6000) example_config (example_request None)
       = ((200, EventStream),
          [ProviderStream AnthropicProvider (addSystemPrompt example_messages)])"
    by simp
  from provider_selection [OF p1 example_validate, where c = unconfigured
         and up = example_upstream, THEN conjunct2, THEN conjunct1] example_first_configured(2)
  have 2: "reply_handler (Some 6000) unconfigured example_upstream (example_request None) =
       ((500, ErrorBody ''Failed to generate AI response'' ''AI_ERROR''), [])
     \<and> stream_handler (Some 6000) unconfigured (example_request None) =
       ((500, ErrorBody ''Failed to start AI streaming'' ''STREAM_ERROR''), [])"
    by simp
  from provider_selection [OF p3 example_validate, where c = example_config
         and up = example_upstream and p = AnthropicProvider and reply = "''Dear friend''",
         THEN conjunct2, THEN conjunct2] example_config_simps(1) u
  have 3: "fst (reply_handler (Some 6000) example_config example_upstream
            (example_request (Some ''anthropic'')))
       = (200, ReplyBody ''Dear friend'' ''anthropic'')"
    by (simp del: isConfigured.simps)
  from provider_selection [OF p2 example_validate, where c = example_config
         and up = example_upstream and p = LocalAIProvider,
         THEN conjunct2, THEN conjunct2] example_config_simps(3)
  have 4: "reply_handler (Some 6000) example_config example_upstream
             (example_request (Some ''local''))
       = ((503, ErrorBody ''AI service temporarily unavailable'' ''SERVICE_UNAVAILABLE''), [])
     \<and> stream_handler (Some 6000) example_config (example_request (Some ''local''))
       = ((503, ErrorBody ''AI service temporarily unavailable'' ''SERVICE_UNAVAILABLE''), [])"
    by (simp del: isConfigured.simps)
  from 1 2 3 4 p1 p2 p3 u example_validate example_first_configured
       example_config_simps(1) example_config_simps(3)
  show ?thesis by (simp del: isConfigured.simps)
qed

subsection \<open>System prompt\<close>

text \<open>
  Claim C10. For a request that passed the schema and the content check, whose provider
  is selected and configured: the one call made to the provider, by \<open>getResponse\<close> on
  the reply route and by \<open>streamResponse\<close> on the stream route, is handed the original
  messages unchanged when one of them has role \<open>system\<close>, and otherwise the original
  messages, unchanged and in order, behind one system message with the server's fixed
  prompt.
\<close>

theorem system_prompt_injection:
  assumes "aiRequestSchema_parse body = Inr (messages, rp)"
    and "validateContentLength mx messages = Inr ()"
    and "getAIProvider c rp = Inr p"
    and "isConfigured c p"
  shows "snd (reply_handler mx c up body) =
           [ProviderRequest p
              (if list_ex (\<lambda>m. role m = ''system'') messages then messages
               else \<lparr> role = ''system'', content = systemPrompt \<rparr> # messages)]
       \<and> snd (stream_handler mx c body) =
           [ProviderStream p
              (if list_ex (\<lambda>m. role m = ''system'') messages then messages
               else \<lparr> role = ''system'', content = systemPrompt \<rparr> # messages)]"
  using assms
  by (simp add: reply_handler_def stream_handler_def getResponse_def streamResponse_call_def
      addSystemPrompt_def split: sum.splits)

theorem system_prompt_injection_witness:
  "aiRequestSchema_parse (example_request None) = Inr (example_messages, None)
   \<and> validateContentLength (Some 6000) example_messages = Inr ()
   \<and> getAIProvider example_config None = Inr AnthropicProvider
   \<and> isConfigured example_config AnthropicProvider
   \<and> snd (reply_handler (Some 6000) example_config example_upstream (example_request None)) =
       [ProviderRequest AnthropicProvider
          [\<lparr> role = ''system'', content = systemPrompt \<rparr>,
           \<lparr> role = ''user'', content = ''Dear Ann'' \<rparr>]]
   \<and> snd (stream_handler (Some 6000) example_config (example_request None)) =
       [ProviderStream AnthropicProvider
          [\<lparr> role = ''system'', content = systemPrompt \<rparr>,
           \<lparr> role = ''user'', content = ''Dear Ann'' \<rparr>]]"
proof -
  note p = example_request_parse(1)
  have g: "getAIProvider example_config None = Inr AnthropicProvider"
    by (simp add: getAIProvider_def example_config_simps del: isConfigured.simps)
  from system_prompt_injection [OF p example_validate g example_config_simps(1),
         of example_upstream]
    p g example_validate example_config_simps(1)
  show ?thesis by (simp add: example_messages_def del: isConfigured.simps)
qed

section \<open>Anthropic message conversion\<close>

lemma message_rebuild [simp]: "\<lparr> role = role m, content = content m \<rparr> = (m :: message)"
  by (cases m) simp

lemma find_first:
  "\<forall>m \<in> set pre. \<not> P m \<Longrightarrow> P s \<Longrightarrow> find P (pre @ s # rest) = Some s"
  by (induction pre) auto

lemma find_none: "\<forall>m \<in> set ms. \<not> P m \<Longrightarrow> find P ms = None"
  by (induction ms) auto

text \<open>
  Claim C9 as stated fails: a system message after the first one is not forwarded as a
  conversation turn. In the example conversation the second system message, \<open>Be brief\<close>,
  is neither in the payload's messages nor in its system field.
\<close>

theorem later_system_message_counterexample:
  "\<lparr> role = ''system'', content = ''Be brief'' \<rparr> \<in> set example_conversation
   \<and> convertMessages example_conversation =
       \<lparr> payload_messages = [\<lparr> role = ''user'', content = ''Dear Ann'' \<rparr>,
                             \<lparr> role = ''assistant'', content = ''Dear friend'' \<rparr>],
         payload_system = Some ''Be kind'' \<rparr>
   \<and> \<lparr> role = ''system'', content = ''Be brief'' \<rparr>
        \<notin> set (payload_messages (convertMessages example_conversation))"
  by (simp add: convertMessages_def example_conversation_def)

text \<open>
  Claim C9, amended. For every message sequence, the payload's messages are the
  non-system messages in their original order, and no system message is among them: the
  system messages after the first are dropped. When the first system message \<open>s\<close> has a
  non-empty content, that content is the payload's top-level system field. With no system
  message there is no system field and the messages are forwarded as they are.
\<close>

theorem convertMessages_system:
  "payload_messages (convertMessages messages) = filter (\<lambda>m. role m \<noteq> ''system'') messages
   \<and> (\<forall>m \<in> set (payload_messages (convertMessages messages)). role m \<noteq> ''system'')
   \<and> ((\<forall>m \<in> set pre. role m \<noteq> ''system'') \<and> role s = ''system'' \<and> content s \<noteq> []
         \<and> messages = pre @ s # rest
        \<longrightarrow> payload_system (convertMessages messages) = Some (content s)
            \<and> payload_messages (convertMessages messages)
                = pre @ filter (\<lambda>m. role m \<noteq> ''system'') rest)
   \<and> ((\<forall>m \<in> set messages. role m \<noteq> ''system'')
        \<longrightarrow> payload_system (convertMessages messages) = None
            \<and> payload_messages (convertMessages messages) = messages)"
proof (intro conjI impI)
  show "payload_messages (convertMessages messages) = filter (\<lambda>m. role m \<noteq> ''system'') messages"
    by (simp add: convertMessages_def)
  show "\<forall>m \<in> set (payload_messages (convertMessages messages)). role m \<noteq> ''system''"
    by (simp add: convertMessages_def)
next
  assume h: "(\<forall>m \<in> set pre. role m \<noteq> ''system'') \<and> role s = ''system'' \<and> content s \<noteq> []
         \<and> messages = pre @ s # rest"
  then have f: "find (\<lambda>m. role m = ''system'') messages = Some s"
    by (simp add: find_first)
  show "payload_system (convertMessages messages) = Some (content s)"
    using h f by (simp add: convertMessages_def)
  have "filter (\<lambda>m. role m \<noteq> ''system'') pre = pre"
    using h by (simp add: filter_id_conv)
  then show "payload_messages (convertMessages messages)
                = pre @ filter (\<lambda>m. role m \<noteq> ''system'') rest"
    using h by (simp add: convertMessages_def)
next
  assume h: "\<forall>m \<in> set messages. role m \<noteq> ''system''"
  then show "payload_system (convertMessages messages) = None"
    by (simp add: convertMessages_def find_none)
  show "payload_messages (convertMessages messages) = messages"
    using h by (simp add: convertMessages_def filter_id_conv)
qed

theorem convertMessages_system_witness:
  "example_conversation = [] @ \<lparr> role = ''system'', content = ''Be kind'' \<rparr>
       # [\<lparr> role = ''user'', content = ''Dear Ann'' \<rparr>,
          \<lparr> role = ''system'', content = ''Be brief'' \<rparr>,
          \<lparr> role = ''assistant'', content = ''Dear friend'' \<rparr>]
   \<and> payload_system (convertMessages example_conversation) = Some ''Be kind''
   \<and> payload_messages (convertMessages example_conversation)
       = [\<lparr> role = ''user'', content = ''Dear Ann'' \<rparr>,
          \<lparr> role = ''assistant'', content = ''Dear friend'' \<rparr>]
   \<and> role \<lparr> role = ''user'', content = ''Dear Ann'' \<rparr> \<noteq> ''system''
   \<and> payload_system (convertMessages [\<lparr> role = ''user'', content = ''Dear Ann'' \<rparr>]) = None
   \<and> payload_messages (convertMessages [\<lparr> role = ''user'', content = ''Dear Ann'' \<rparr>])
       = [\<lparr> role = ''user'', content = ''Dear Ann'' \<rparr>]"
proof -
  let ?sys = "\<lparr> role = ''system'', content = ''Be kind'' \<rparr>"
  let ?rest = "[\<lparr> role = ''user'', content = ''Dear Ann'' \<rparr>,
            \<lparr> role = ''system'', content = ''Be brief'' \<rparr>,
            \<lparr> role = ''assistant'', content = ''Dear friend'' \<rparr>]"
  let ?plain = "[\<lparr> role = ''user'', content = ''Dear Ann'' \<rparr>]"
  have e: "example_conversation = [] @ ?sys # ?rest"
    by (simp add: example_conversation_def)
  have a: "(\<forall>m \<in> set ([] :: message list). role m \<noteq> ''system'') \<and> role ?sys = ''system''
           \<and> content ?sys \<noteq> [] \<and> example_conversation = [] @ ?sys # ?rest"
    using e by simp
  have b: "\<forall>m \<in> set ?plain. role m \<noteq> ''system''" by simp
  from convertMessages_system [of example_conversation "[]" ?sys ?rest] a
  have 1: "payload_system (convertMessages example_conversation) = Some (content ?sys)
     \<and> payload_messages (convertMessages example_conversation)
          = [] @ filter (\<lambda>m. role m \<noteq> ''system'') ?rest"
    by blast
  from convertMessages_system [of ?plain "[]" ?sys "[]"] b
  have 2: "payload_system (convertMessages ?plain) = None
     \<and> payload_messages (convertMessages ?plain) = ?plain"
    by blast
  from 1 2 e show ?thesis by simp
qed

section \<open>The access token service\<close>

lemma verifyServerJWT_open:
  assumes "getPrivateKey lib svc = Inr k" and "getPublicKeyFromPrivate lib k = Inr pk"
    and "jws_open lib pk tok = Inr c"
  shows "verifyServerJWT lib svc now tok =
           (if claim_iss c \<noteq> issuer svc
            then Inl (Error ''Invalid JWT: unexpected \"iss\" claim value'')
            else if claim_aud c \<noteq> audience svc
            then Inl (Error ''Invalid JWT: unexpected \"aud\" claim value'')
            else (case claim_exp c of
                    None \<Rightarrow> Inl (Error ''Invalid JWT: \"exp\" claim must be a number'')
                  | Some exp \<Rightarrow>
                      if exp \<le> now
                      then Inl (Error ''Invalid JWT: \"exp\" claim timestamp check failed'')
                      else Inr c))"
  using assms by (simp add: verifyServerJWT_def jwtVerify_def split: option.splits)

lemma verifyServerJWT_closed:
  assumes "getPrivateKey lib svc = Inr k" and "getPublicKeyFromPrivate lib k = Inr pk"
    and "jws_open lib pk tok = Inl m"
  shows "verifyServerJWT lib svc now tok = Inl (Error (''Invalid JWT: '' @ m))"
  using assms by (simp add: verifyServerJWT_def jwtVerify_def)

lemma signServerJWT_signed:
  assumes "getPrivateKey lib svc = Inr k"
    and "jws_sign lib k
           \<lparr> claim_sub = sub, claim_provider = prov, claim_iat = t0,
             claim_exp = map_option (\<lambda>e. t0 + e) (expiresIn svc),
             claim_iss = issuer svc, claim_aud = audience svc \<rparr> = Inr tok"
  shows "signServerJWT lib svc t0 sub prov = Inr tok"
  using assms by (simp add: signServerJWT_def)

lemma signServerJWT_Inr:
  assumes "signServerJWT lib svc t0 sub prov = Inr tok"
  shows "\<exists>k. getPrivateKey lib svc = Inr k
           \<and> jws_sign lib k
               \<lparr> claim_sub = sub, claim_provider = prov, claim_iat = t0,
                 claim_exp = map_option (\<lambda>e. t0 + e) (expiresIn svc),
                 claim_iss = issuer svc, claim_aud = audience svc \<rparr> = Inr tok"
  using assms by (simp add: signServerJWT_def split: sum.splits)

lemma example_keys:
  "getPrivateKey example_crypto example_jwt = Inr ''private''"
  "getPublicKeyFromPrivate example_crypto ''private'' = Inr ''public''"
  by (simp_all add: getPrivateKey_def getPublicKeyFromPrivate_def example_crypto_def
      example_jwt_def)

lemma example_lifetime: "expiresIn example_jwt = Some 3600"
  by (simp add: example_jwt_def)

lemma example_open: "jws_open example_crypto ''public'' ''token-1'' = Inr example_claims"
  by (simp add: example_crypto_def)

lemma example_sign: "jws_sign example_crypto ''private'' example_claims = Inr ''token-1''"
  by (simp add: example_crypto_def)

lemma example_claims_minted:
  "example_claims = \<lparr> claim_sub = ''user-1'', claim_provider = ''google'', claim_iat = 1000,
               claim_exp = Some (1000 + 3600), claim_iss = issuer example_jwt,
               claim_aud = audience example_jwt \<rparr>"
  by (simp add: example_claims_def example_jwt_def)

lemma example_signServerJWT:
  "signServerJWT example_crypto example_jwt 1000 ''user-1'' ''google'' = Inr ''token-1''"
  using example_sign
  by (simp add: signServerJWT_def example_keys example_lifetime example_claims_minted)

lemma example_verify_forged:
  "verifyServerJWT example_crypto example_jwt now ''forged'' =
     Inl (Error ''Invalid JWT: signature verification failed'')"
  using verifyServerJWT_closed [OF example_keys, of "''forged''"
          "''signature verification failed''" now]
  by (simp add: example_crypto_def)

lemma example_verify_token:
  "verifyServerJWT example_crypto example_jwt now ''token-1'' =
     (if 4600 \<le> now then Inl (Error ''Invalid JWT: \"exp\" claim timestamp check failed'')
      else Inr example_claims)"
  using verifyServerJWT_open [OF example_keys example_open, of now]
  by (simp add: example_claims_def example_jwt_def)

text \<open>
  Claim C1 as stated fails at the boundary: a token signed at second 1000 with a life of
  3600 seconds has \<open>exp = 4600\<close>, and at second 4600, when the clock is at most \<open>exp\<close>,
  verification already fails.
\<close>

theorem expiry_boundary_counterexample:
  "signServerJWT example_crypto example_jwt 1000 ''user-1'' ''google'' = Inr ''token-1''
   \<and> claim_exp example_claims = Some 4600
   \<and> verifyServerJWT example_crypto example_jwt 4600 ''token-1'' =
       Inl (Error ''Invalid JWT: \"exp\" claim timestamp check failed'')"
proof -
  have 2: "verifyServerJWT example_crypto example_jwt 4600 ''token-1'' =
       Inl (Error ''Invalid JWT: \"exp\" claim timestamp check failed'')"
    by (simp add: example_verify_token)
  from example_signServerJWT 2 show ?thesis by (simp add: example_claims_def)
qed

text \<open>
  Claim C1, amended. Let the configured key import and its public key be derived, let
  the configured lifetime be a number \<open>e\<close>, and let the library sign the claims \<open>c\<close>
  that \<open>signServerJWT\<close> builds at time \<open>t0\<close> for \<open>(sub, prov)\<close> (issuer and audience
  from the configuration, \<open>exp = t0 + e\<close>) and open, under that public key, the token it
  signed. Then signing returns that token; verifying it at any time strictly before
  \<open>exp\<close> returns the claims, with the same \<open>sub\<close> and \<open>provider\<close>; and from
  \<open>now = exp\<close> on, verification fails with the invalid-token error.
\<close>

theorem token_round_trip:
  assumes "getPrivateKey lib svc = Inr k"
    and "getPublicKeyFromPrivate lib k = Inr pk"
    and "expiresIn svc = Some e"
    and "c = \<lparr> claim_sub = sub, claim_provider = prov, claim_iat = t0,
               claim_exp = Some (t0 + e), claim_iss = issuer svc,
               claim_aud = audience svc \<rparr>"
    and "jws_sign lib k c = Inr tok"
    and "jws_open lib pk tok = Inr c"
  shows "signServerJWT lib svc t0 sub prov = Inr tok
       \<and> (now < t0 + e \<longrightarrow>
            verifyServerJWT lib svc now tok = Inr c
          \<and> claim_sub c = sub \<and> claim_provider c = prov)
       \<and> (t0 + e \<le> now \<longrightarrow>
            verifyServerJWT lib svc now tok =
              Inl (Error ''Invalid JWT: \"exp\" claim timestamp check failed''))"
proof -
  from assms(1,3,4,5) have "signServerJWT lib svc t0 sub prov = Inr tok"
    by (simp add: signServerJWT_def)
  moreover from assms(4)
  have "verifyServerJWT lib svc now tok =
          (if t0 + e \<le> now
           then Inl (Error ''Invalid JWT: \"exp\" claim timestamp check failed'')
           else Inr c)"
    by (simp add: verifyServerJWT_open [OF assms(1,2,6)])
  ultimately show ?thesis using assms(4) by simp
qed

theorem token_round_trip_witness:
  "getPrivateKey example_crypto example_jwt = Inr ''private''
   \<and> getPublicKeyFromPrivate example_crypto ''private'' = Inr ''public''
   \<and> expiresIn example_jwt = Some 3600
   \<and> jws_sign example_crypto ''private'' example_claims = Inr ''token-1''
   \<and> jws_open example_crypto ''public'' ''token-1'' = Inr example_claims
   \<and> signServerJWT example_crypto example_jwt 1000 ''user-1'' ''google'' = Inr ''token-1''
   \<and> (4599 :: int) < 1000 + 3600
   \<and> verifyServerJWT example_crypto example_jwt 4599 ''token-1'' = Inr example_claims
   \<and> claim_sub example_claims = ''user-1'' \<and> claim_provider example_claims = ''google''
   \<and> 1000 + 3600 \<le> (4601 :: int)
   \<and> verifyServerJWT example_crypto example_jwt 4601 ''token-1'' =
       Inl (Error ''Invalid JWT: \"exp\" claim timestamp check failed'')"
proof -
  from token_round_trip [OF example_keys example_lifetime example_claims_minted example_sign
         example_open, of 4599]
       token_round_trip [OF example_keys example_lifetime example_claims_minted example_sign
         example_open, of 4601]
       example_keys example_open example_sign example_lifetime
  show ?thesis by simp
qed

section \<open>Required authentication\<close>

text \<open>
  Claim C4 as stated fails for a header that is present and empty: it does not start
  with the bearer scheme, and it is answered \<open>MISSING_AUTH_HEADER\<close>, not
  \<open>INVALID_AUTH_FORMAT\<close>.
\<close>

theorem empty_header_counterexample:
  "\<not> startsWith [] ''Bearer ''
   \<and> authRequired example_crypto example_jwt 1000 (Some []) =
       Reject 401 ''Authorization header required'' ''MISSING_AUTH_HEADER''"
  by (simp add: authRequired_def)

text \<open>
  Claim C4, amended. A request whose \<open>Authorization\<close> header is absent or empty is
  rejected with 401 \<open>MISSING_AUTH_HEADER\<close>; a non-empty header that does not start with
  \<open>Bearer \<close> with 401 \<open>INVALID_AUTH_FORMAT\<close>; the header \<open>Bearer \<close> with nothing after
  it with 401 \<open>MISSING_TOKEN\<close>; a header \<open>Bearer \<close> followed by a token whose
  verification fails, an expired token included, with 401 \<open>INVALID_TOKEN\<close>. When
  verification succeeds the request is admitted with the user id and provider of the
  token's claims attached, and a request is admitted in no other case.
\<close>

theorem auth_gate:
  "(authHeader = None \<or> authHeader = Some [] \<longrightarrow>
      authRequired lib svc now authHeader =
        Reject 401 ''Authorization header required'' ''MISSING_AUTH_HEADER'')
   \<and> (authHeader = Some h \<and> h \<noteq> [] \<and> \<not> startsWith h ''Bearer '' \<longrightarrow>
        authRequired lib svc now authHeader =
          Reject 401 ''Invalid authorization header format. Expected: Bearer <token>''
            ''INVALID_AUTH_FORMAT'')
   \<and> (authHeader = Some ''Bearer '' \<longrightarrow>
        authRequired lib svc now authHeader = Reject 401 ''Token required'' ''MISSING_TOKEN'')
   \<and> (authHeader = Some (''Bearer '' @ token) \<and> token \<noteq> []
        \<and> verifyServerJWT lib svc now token = Inl e \<longrightarrow>
        authRequired lib svc now authHeader =
          Reject 401 ''Invalid or expired token'' ''INVALID_TOKEN'')
   \<and> (authHeader = Some (''Bearer '' @ token) \<and> token \<noteq> []
        \<and> verifyServerJWT lib svc now token = Inr payload \<longrightarrow>
        authRequired lib svc now authHeader =
          Admit \<lparr> ctx_userId = claim_sub payload, ctx_provider = claim_provider payload \<rparr>)
   \<and> (authRequired lib svc now authHeader = Admit u \<longrightarrow>
        (\<exists>t p. authHeader = Some (''Bearer '' @ t) \<and> t \<noteq> []
              \<and> verifyServerJWT lib svc now t = Inr p
              \<and> u = \<lparr> ctx_userId = claim_sub p, ctx_provider = claim_provider p \<rparr>))"
proof (intro conjI impI)
  assume "authHeader = None \<or> authHeader = Some []"
  then show "authRequired lib svc now authHeader =
        Reject 401 ''Authorization header required'' ''MISSING_AUTH_HEADER''"
    by (auto simp: authRequired_def)
next
  assume "authHeader = Some h \<and> h \<noteq> [] \<and> \<not> startsWith h ''Bearer ''"
  then show "authRequired lib svc now authHeader =
          Reject 401 ''Invalid authorization header format. Expected: Bearer <token>''
            ''INVALID_AUTH_FORMAT''"
    by (simp add: authRequired_def)
next
  assume "authHeader = Some ''Bearer ''"
  then show "authRequired lib svc now authHeader = Reject 401 ''Token required'' ''MISSING_TOKEN''"
    by (simp add: authRequired_def)
next
  assume "authHeader = Some (''Bearer '' @ token) \<and> token \<noteq> []
        \<and> verifyServerJWT lib svc now token = Inl e"
  then show "authRequired lib svc now authHeader =
          Reject 401 ''Invalid or expired token'' ''INVALID_TOKEN''"
    by (simp add: authRequired_def)
next
  assume "authHeader = Some (''Bearer '' @ token) \<and> token \<noteq> []
        \<and> verifyServerJWT lib svc now token = Inr payload"
  then show "authRequired lib svc now authHeader =
          Admit \<lparr> ctx_userId = claim_sub payload, ctx_provider = claim_provider payload \<rparr>"
    by (simp add: authRequired_def extractUserContext_def)
next
  assume a: "authRequired lib svc now authHeader = Admit u"
  then obtain h where h: "authHeader = Some h" "h \<noteq> []" "startsWith h ''Bearer ''"
    by (auto simp: authRequired_def split: option.splits if_splits)
  then obtain t where t: "h = ''Bearer '' @ t"
    using startsWith_iff [of h "''Bearer ''"] by blast
  with a h have "t \<noteq> []" by (auto simp: authRequired_def)
  moreover from a h t \<open>t \<noteq> []\<close>
  obtain p where "verifyServerJWT lib svc now t = Inr p"
    "u = \<lparr> ctx_userId = claim_sub p, ctx_provider = claim_provider p \<rparr>"
    by (auto simp: authRequired_def extractUserContext_def split: sum.splits)
  ultimately show "\<exists>t p. authHeader = Some (''Bearer '' @ t) \<and> t \<noteq> []
              \<and> verifyServerJWT lib svc now t = Inr p
              \<and> u = \<lparr> ctx_userId = claim_sub p, ctx_provider = claim_provider p \<rparr>"
    using h t by blast
qed

theorem auth_gate_witness:
  "authRequired example_crypto example_jwt 2000 None =
      Reject 401 ''Authorization header required'' ''MISSING_AUTH_HEADER''
   \<and> \<not> startsWith ''Basic abc'' ''Bearer ''
   \<and> authRequired example_crypto example_jwt 2000 (Some ''Basic abc'') =
       Reject 401 ''Invalid authorization header format. Expected: Bearer <token>''
         ''INVALID_AUTH_FORMAT''
   \<and> authRequired example_crypto example_jwt 2000 (Some ''Bearer '') =
       Reject 401 ''Token required'' ''MISSING_TOKEN''
   \<and> verifyServerJWT example_crypto example_jwt 2000 ''forged'' =
       Inl (Error ''Invalid JWT: signature verification failed'')
   \<and> authRequired example_crypto example_jwt 2000 (Some ''Bearer forged'') =
       Reject 401 ''Invalid or expired token'' ''INVALID_TOKEN''
   \<and> verifyServerJWT example_crypto example_jwt 5000 ''token-1'' =
       Inl (Error ''Invalid JWT: \"exp\" claim timestamp check failed'')
   \<and> authRequired example_crypto example_jwt 5000 (Some ''Bearer token-1'') =
       Reject 401 ''Invalid or expired token'' ''INVALID_TOKEN''
   \<and> verifyServerJWT example_crypto example_jwt 2000 ''token-1'' = Inr example_claims
   \<and> authRequired example_crypto example_jwt 2000 (Some ''Bearer token-1'') =
       Admit \<lparr> ctx_userId = ''user-1'', ctx_provider = ''google'' \<rparr>
   \<and> (\<exists>t p. Some ''Bearer token-1'' = Some (''Bearer '' @ t) \<and> t \<noteq> []
         \<and> verifyServerJWT example_crypto example_jwt 2000 t = Inr p
         \<and> \<lparr> ctx_userId = ''user-1'', ctx_provider = ''google'' \<rparr>
             = \<lparr> ctx_userId = claim_sub p, ctx_provider = claim_provider p \<rparr>)"
proof -
  have v1: "verifyServerJWT example_crypto example_jwt 2000 ''forged'' =
       Inl (Error ''Invalid JWT: signature verification failed'')"
    by (rule example_verify_forged)
  have v2: "verifyServerJWT example_crypto example_jwt 5000 ''token-1'' =
       Inl (Error ''Invalid JWT: \"exp\" claim timestamp check failed'')"
    by (simp add: example_verify_token)
  have v3: "verifyServerJWT example_crypto example_jwt 2000 ''token-1'' = Inr example_claims"
    by (simp add: example_verify_token)
  have n: "\<not> startsWith ''Basic abc'' ''Bearer ''" by simp
  from auth_gate [of None example_crypto example_jwt 2000, THEN conjunct1]
  have 1: "authRequired example_crypto example_jwt 2000 None =
      Reject 401 ''Authorization header required'' ''MISSING_AUTH_HEADER''" by simp
  from auth_gate [of "Some ''Basic abc''" example_crypto example_jwt 2000 "''Basic abc''",
                  THEN conjunct2, THEN conjunct1] n
  have 2: "authRequired example_crypto example_jwt 2000 (Some ''Basic abc'') =
       Reject 401 ''Invalid authorization header format. Expected: Bearer <token>''
         ''INVALID_AUTH_FORMAT''" by simp
  from auth_gate [of "Some ''Bearer ''" example_crypto example_jwt 2000,
                  THEN conjunct2, THEN conjunct2, THEN conjunct1]
  have 3: "authRequired example_crypto example_jwt 2000 (Some ''Bearer '') =
       Reject 401 ''Token required'' ''MISSING_TOKEN''" by simp
  from auth_gate [of "Some ''Bearer forged''" example_crypto example_jwt 2000 _ "''forged''",
                  THEN conjunct2, THEN conjunct2, THEN conjunct2, THEN conjunct1] v1
  have 4: "authRequired example_crypto example_jwt 2000 (Some ''Bearer forged'') =
       Reject 401 ''Invalid or expired token'' ''INVALID_TOKEN''" by simp
  from auth_gate [of "Some ''Bearer token-1''" example_crypto example_jwt 5000 _ "''token-1''",
                  THEN conjunct2, THEN conjunct2, THEN conjunct2, THEN conjunct1] v2
  have 5: "authRequired example_crypto example_jwt 5000 (Some ''Bearer token-1'') =
       Reject 401 ''Invalid or expired token'' ''INVALID_TOKEN''" by simp
  from auth_gate [of "Some ''Bearer token-1''" example_crypto example_jwt 2000 _ "''token-1''"
                     _ example_claims,
                  THEN conjunct2, THEN conjunct2, THEN conjunct2, THEN conjunct2, THEN conjunct1] v3
  have 6: "authRequired example_crypto example_jwt 2000 (Some ''Bearer token-1'') =
       Admit \<lparr> ctx_userId = ''user-1'', ctx_provider = ''google'' \<rparr>"
    by (simp add: example_claims_def)
  from auth_gate [of "Some ''Bearer token-1''" example_crypto example_jwt 2000 _ _ _ _
                     "\<lparr> ctx_userId = ''user-1'', ctx_provider = ''google'' \<rparr>",
                  THEN conjunct2, THEN conjunct2, THEN conjunct2, THEN conjunct2, THEN conjunct2] 6
  have 7: "\<exists>t p. Some ''Bearer token-1'' = Some (''Bearer '' @ t) \<and> t \<noteq> []
         \<and> verifyServerJWT example_crypto example_jwt 2000 t = Inr p
         \<and> \<lparr> ctx_userId = ''user-1'', ctx_provider = ''google'' \<rparr>
             = \<lparr> ctx_userId = claim_sub p, ctx_provider = claim_provider p \<rparr>"
    by (rule mp)
  from 1 2 3 4 5 6 7 v1 v2 v3 n show ?thesis by (intro conjI)
qed

section \<open>Identity verifiers\<close>

lemma google_verify_ok:
  assumes "jv ''https://accounts.google.com'' auds idToken = Inr p" and "auds \<noteq> []"
  shows "google_verifyIdToken auds jv idToken =
           (if \<not> present (g_sub p)
            then Inl (Error ''Google token verification failed: Invalid token: missing subject'')
            else if g_email_verified p \<noteq> Some True
            then Inl (Error ''Google token verification failed: Email not verified'')
            else Inr p)"
  using assms by (simp add: google_verifyIdToken_def)

lemma apple_verify_ok:
  assumes "jv ''https://appleid.apple.com'' auds idToken = Inr p" and "auds \<noteq> []"
  shows "apple_verifyIdToken auds jv idToken =
           (if \<not> present (a_sub p)
            then Inl (Error ''Apple token verification failed: Invalid token: missing subject'')
            else if present (a_email p) \<and> \<not> isEmailVerified (a_email_verified p)
            then Inl (Error ''Apple token verification failed: Email not verified'')
            else Inr p)"
  using assms by (simp add: apple_verifyIdToken_def)

lemma google_verify_sub:
  assumes "google_verifyIdToken auds jv t = Inr gp"
  shows "\<exists>uid. g_sub gp = Some uid \<and> uid \<noteq> []"
proof -
  from assms have "present (g_sub gp)"
    by (simp add: google_verifyIdToken_def split: if_splits sum.splits)
  then show ?thesis by (cases "g_sub gp") (simp_all add: present_def)
qed

lemma apple_verify_sub:
  assumes "apple_verifyIdToken auds jv t = Inr ap"
  shows "\<exists>uid. a_sub ap = Some uid \<and> uid \<noteq> []"
proof -
  from assms have "present (a_sub ap)"
    by (simp add: apple_verifyIdToken_def split: if_splits sum.splits)
  then show ?thesis by (cases "a_sub ap") (simp_all add: present_def)
qed

lemma google_failure_is_auth_failed:
  assumes "auds \<noteq> []" and "google_verifyIdToken auds jv idToken = Inl e"
  shows "exchange_catch e = (401, ErrorBody ''Authentication failed'' ''AUTH_FAILED'')"
proof -
  from assms obtain m where "e = Error (''Google token verification failed: '' @ m)"
    by (auto simp: google_verifyIdToken_def split: sum.splits if_splits)
  then show ?thesis
    by (simp add: exchange_catch_def verification_failed_includes)
qed

text \<open>
  The Google verifier accepts a payload exactly when its subject is non-empty and its
  \<open>email_verified\<close> claim is true, whether or not an email is present.
\<close>

lemma google_verify_iff:
  assumes "jv ''https://accounts.google.com'' auds idToken = Inr p" and "auds \<noteq> []"
  shows "google_verifyIdToken auds jv idToken = Inr p
         \<longleftrightarrow> present (g_sub p) \<and> g_email_verified p = Some True"
  using google_verify_ok [of jv auds idToken p, OF assms] by simp

section \<open>Token exchange\<close>

lemma exchange_handler_google:
  assumes "tokenExchangeSchema_parse body = Inr (''google'', idToken)"
    and "ex_google_audiences s \<noteq> []"
  shows "exchange_handler s now body =
           (case google_verifyIdToken (ex_google_audiences s) (ex_google_verify s) idToken of
              Inl e \<Rightarrow> respond [ValidateShape, CheckConfigured, VerifyExternal] (exchange_catch e)
            | Inr gp \<Rightarrow> mint_and_respond s now ''google'' (g_sub gp)
                         [ValidateShape, CheckConfigured, VerifyExternal])"
  using assms
  by (simp add: exchange_handler_def google_extractUserInfo_def split: sum.splits)

lemma exchange_handler_apple:
  assumes "tokenExchangeSchema_parse body = Inr (''apple'', idToken)"
    and "ex_apple_audiences s \<noteq> []"
  shows "exchange_handler s now body =
           (case apple_verifyIdToken (ex_apple_audiences s) (ex_apple_verify s) idToken of
              Inl e \<Rightarrow> respond [ValidateShape, CheckConfigured, VerifyExternal] (exchange_catch e)
            | Inr ap \<Rightarrow> mint_and_respond s now ''apple'' (a_sub ap)
                         [ValidateShape, CheckConfigured, VerifyExternal])"
  using assms
  by (simp add: exchange_handler_def apple_extractUserInfo_def split: sum.splits)

lemma mint_signed:
  assumes "signServerJWT (ex_crypto s) (ex_jwt s) now uid prov = Inr tok"
  shows "mint_and_respond s now prov (Some uid) log =
           ((200, TokenBody tok (expiresIn (ex_jwt s)) prov), log @ [MintToken, Respond])"
  using assms by (simp add: mint_and_respond_def respond_def)

lemma mint_failed:
  assumes "signServerJWT (ex_crypto s) (ex_jwt s) now uid prov = Inl e"
  shows "mint_and_respond s now prov (Some uid) log =
           (exchange_catch e, log @ [MintToken, Respond])"
  using assms by (simp add: mint_and_respond_def respond_def)

lemma example_exchange_parse:
  "tokenExchangeSchema_parse example_exchange = Inr (''google'', ''id-1'')"
  by (simp add: tokenExchangeSchema_parse_def example_exchange_def)

lemma example_services_simps:
  "ex_crypto (example_services pem gp) = example_crypto"
  "ex_jwt (example_services pem gp) = example_jwt \<lparr> privateKey := pem \<rparr>"
  "ex_google_audiences (example_services pem gp) = [''ios-client'']"
  "ex_google_verify (example_services pem gp) iss auds ''id-1'' = Inr gp"
  by (simp_all add: example_services_def)

lemma example_services_jwt: "ex_jwt (example_services ''PEM'' gp) = example_jwt"
  by (simp add: example_services_def example_jwt_def)

lemma example_services_audiences: "ex_google_audiences (example_services pem gp) \<noteq> []"
  by (simp add: example_services_simps)

lemma example_google_verify:
  "google_verifyIdToken (ex_google_audiences (example_services pem example_google_payload))
     (ex_google_verify (example_services pem example_google_payload)) ''id-1''
   = Inr example_google_payload"
  by (simp add: google_verifyIdToken_def example_services_simps present_def
      example_google_payload_def)

subsection \<open>Google: unverified email\<close>

text \<open>
  Claim C5. For an exchange request for Google whose token passed the signature, issuer,
  audience and expiry checks with payload \<open>p\<close>: verification succeeds only with a
  non-empty subject and, when an email is present, only with \<open>email_verified\<close> true, and
  the identity extracted from a verified payload carries an email only if
  \<open>email_verified\<close> is true; when the subject is empty or missing, or an email is
  present without \<open>email_verified\<close> being true, the exchange endpoint answers 401
  \<open>AUTH_FAILED\<close>.
\<close>

theorem google_email_verified:
  assumes "tokenExchangeSchema_parse body = Inr (''google'', idToken)"
    and "ex_google_audiences s \<noteq> []"
    and "ex_google_verify s ''https://accounts.google.com'' (ex_google_audiences s) idToken = Inr p"
  shows "(google_verifyIdToken (ex_google_audiences s) (ex_google_verify s) idToken = Inr p' \<longrightarrow>
            p' = p \<and> present (g_sub p) \<and> (g_email p \<noteq> None \<longrightarrow> g_email_verified p = Some True)
          \<and> (info_email (google_extractUserInfo p') \<noteq> None \<longrightarrow> g_email_verified p' = Some True))
       \<and> (\<not> present (g_sub p) \<or> (g_email p \<noteq> None \<and> g_email_verified p \<noteq> Some True) \<longrightarrow>
            fst (exchange_handler s now body) =
              (401, ErrorBody ''Authentication failed'' ''AUTH_FAILED''))"
proof -
  note ok = google_verify_ok [of "ex_google_verify s" "ex_google_audiences s" idToken p,
                              OF assms(3) assms(2)]
  have a: "p' = p \<and> present (g_sub p) \<and> g_email_verified p = Some True"
    if "google_verifyIdToken (ex_google_audiences s) (ex_google_verify s) idToken = Inr p'"
    using that ok by (simp split: if_splits)
  have b: "fst (exchange_handler s now body) =
              (401, ErrorBody ''Authentication failed'' ''AUTH_FAILED'')"
    if "\<not> present (g_sub p) \<or> (g_email p \<noteq> None \<and> g_email_verified p \<noteq> Some True)"
  proof -
    from that ok obtain e where
      e: "google_verifyIdToken (ex_google_audiences s) (ex_google_verify s) idToken = Inl e"
      by (auto split: if_splits)
    from google_failure_is_auth_failed [OF assms(2) e] e
    show ?thesis by (simp add: exchange_handler_google [OF assms(1) assms(2)] respond_def)
  qed
  from a b show ?thesis by blast
qed

theorem google_email_verified_witness:
  "tokenExchangeSchema_parse example_exchange = Inr (''google'', ''id-1'')
   \<and> ex_google_audiences (example_services ''PEM'' example_google_payload) \<noteq> []
   \<and> google_verifyIdToken (ex_google_audiences (example_services ''PEM'' example_google_payload))
        (ex_google_verify (example_services ''PEM'' example_google_payload)) ''id-1''
       = Inr example_google_payload
   \<and> present (g_sub example_google_payload)
   \<and> g_email example_google_payload \<noteq> None
   \<and> g_email_verified example_google_payload = Some True
   \<and> g_email (example_google_payload \<lparr> g_email_verified := Some False \<rparr>) \<noteq> None
   \<and> g_email_verified (example_google_payload \<lparr> g_email_verified := Some False \<rparr>) \<noteq> Some True
   \<and> fst (exchange_handler
            (example_services ''PEM'' (example_google_payload \<lparr> g_email_verified := Some False \<rparr>))
            1000 example_exchange)
       = (401, ErrorBody ''Authentication failed'' ''AUTH_FAILED'')"
proof -
  let ?bad = "example_google_payload \<lparr> g_email_verified := Some False \<rparr>"
  have v: "ex_google_verify (example_services ''PEM'' gp) ''https://accounts.google.com''
             (ex_google_audiences (example_services ''PEM'' gp)) ''id-1'' = Inr gp" for gp
    by (simp add: example_services_simps)
  have b: "g_email ?bad \<noteq> None \<and> g_email_verified ?bad \<noteq> Some True"
    by (simp add: example_google_payload_def)
  from google_email_verified [OF example_exchange_parse example_services_audiences
         v [of example_google_payload], where p' = example_google_payload, THEN conjunct1]
       example_google_verify [of "''PEM''"]
  have 1: "present (g_sub example_google_payload)
     \<and> (g_email example_google_payload \<noteq> None
          \<longrightarrow> g_email_verified example_google_payload = Some True)"
    by simp
  from google_email_verified [OF example_exchange_parse example_services_audiences
         v [of ?bad], where now = 1000, THEN conjunct2] b
  have 2: "fst (exchange_handler (example_services ''PEM'' ?bad) 1000 example_exchange)
       = (401, ErrorBody ''Authentication failed'' ''AUTH_FAILED'')"
    by simp
  have 3: "g_email example_google_payload \<noteq> None"
    by (simp add: example_google_payload_def)
  from 1 2 3 b example_exchange_parse example_services_audiences
       example_google_verify [of "''PEM''"]
  show ?thesis by simp
qed

subsection \<open>Apple: normalising \<open>email_verified\<close>\<close>

text \<open>
  Claim C8. For an Apple token that passed the signature, issuer, audience and expiry
  checks with payload \<open>p\<close> and carries an email (a non-empty email claim): verification
  succeeds only if \<open>isEmailVerified\<close> of the \<open>email_verified\<close> claim is true, where a
  boolean is taken as it is, a string is verified exactly when its lower-case form is
  \<open>true\<close> (so \<open>false\<close> in any letter case is not), and an absent claim counts as
  verified.
\<close>

theorem apple_email_verified:
  assumes "jv ''https://appleid.apple.com'' auds idToken = Inr p"
    and "auds \<noteq> []"
    and "present (a_email p)"
    and "apple_verifyIdToken auds jv idToken = Inr p'"
  shows "p' = p \<and> isEmailVerified (a_email_verified p)
       \<and> isEmailVerified (Some (BoolVal b)) = b
       \<and> (isEmailVerified (Some (StringVal s)) \<longleftrightarrow> toLowerCase s = ''true'')
       \<and> (toLowerCase s = ''false'' \<longrightarrow> \<not> isEmailVerified (Some (StringVal s)))
       \<and> isEmailVerified None"
  using assms
  by (auto simp: apple_verify_ok isEmailVerified_def split: if_splits)

theorem apple_email_verified_witness:
  "(\<lambda>iss auds t. Inr example_apple_payload) ''https://appleid.apple.com'' [''bundle''] ''id-2''
     = (Inr example_apple_payload :: string + apple_payload)
   \<and> [''bundle''] \<noteq> ([] :: string list)
   \<and> present (a_email example_apple_payload)
   \<and> apple_verifyIdToken [''bundle''] (\<lambda>iss auds t. Inr example_apple_payload) ''id-2''
       = Inr example_apple_payload
   \<and> isEmailVerified (a_email_verified example_apple_payload)
   \<and> toLowerCase ''FALSE'' = ''false''
   \<and> \<not> isEmailVerified (Some (StringVal ''FALSE''))"
proof -
  have e: "present (a_email example_apple_payload)"
    by (simp add: example_apple_payload_def present_def)
  have v: "apple_verifyIdToken [''bundle''] (\<lambda>iss auds t. Inr example_apple_payload) ''id-2''
       = Inr example_apple_payload"
    by (simp add: apple_verifyIdToken_def example_apple_payload_def present_def isEmailVerified_def
        toLowerCase_examples)
  from apple_email_verified [of "\<lambda>iss auds t. Inr example_apple_payload" "[''bundle'']"
         "''id-2''" example_apple_payload example_apple_payload True "''FALSE''", OF _ _ e v]
       toLowerCase_examples(3)
  have "isEmailVerified (a_email_verified example_apple_payload)
        \<and> \<not> isEmailVerified (Some (StringVal ''FALSE''))"
    by simp
  with e v toLowerCase_examples(3) show ?thesis by simp
qed

subsection \<open>The success path\<close>

text \<open>
  Claim C3 as stated fails when the access token cannot be signed: with a key text that
  does not import, a request whose body passes the schema, whose provider is configured
  and whose identity token verifies is answered 500 \<open>INTERNAL_ERROR\<close>.
\<close>

theorem signing_failure_counterexample:
  "tokenExchangeSchema_parse example_exchange = Inr (''google'', ''id-1'')
   \<and> ex_google_audiences (example_services ''garbage'' example_google_payload) \<noteq> []
   \<and> google_verifyIdToken
        (ex_google_audiences (example_services ''garbage'' example_google_payload))
        (ex_google_verify (example_services ''garbage'' example_google_payload)) ''id-1''
       = Inr example_google_payload
   \<and> exchange_handler (example_services ''garbage'' example_google_payload) 1000 example_exchange
       = ((500, ErrorBody ''Internal server error'' ''INTERNAL_ERROR''),
          [ValidateShape, CheckConfigured, VerifyExternal, MintToken, Respond])"
proof -
  let ?s = "example_services ''garbage'' example_google_payload"
  have k: "signServerJWT (ex_crypto ?s) (ex_jwt ?s) 1000 ''user-1'' ''google''
           = Inl (Error ''Failed to sign JWT: Invalid private key format: Invalid keyData'')"
    by (simp add: signServerJWT_def getPrivateKey_def example_services_simps example_crypto_def
        example_jwt_def)
  have c: "exchange_catch (Error ''Failed to sign JWT: Invalid private key format: Invalid keyData'')
           = (500, ErrorBody ''Internal server error'' ''INTERNAL_ERROR'')"
    by (simp add: exchange_catch_def)
  have g: "g_sub example_google_payload = Some ''user-1''"
    by (simp add: example_google_payload_def)
  have "exchange_handler ?s 1000 example_exchange
       = ((500, ErrorBody ''Internal server error'' ''INTERNAL_ERROR''),
          [ValidateShape, CheckConfigured, VerifyExternal, MintToken, Respond])"
    by (simp add: exchange_handler_google [OF example_exchange_parse example_services_audiences]
        example_google_verify g mint_failed [OF k] c)
  with example_exchange_parse example_services_audiences example_google_verify [of "''garbage''"]
  show ?thesis by simp
qed

text \<open>
  Claim C3, amended. For a request whose body passes the schema, whose named provider is
  configured, whose identity token verifies with subject \<open>uid\<close>, and for which signing
  the access token succeeds with token \<open>tok\<close>: the endpoint goes through the stages
  validate shape, check provider configured, verify external token, mint access token,
  respond, each once and in this order, and answers 200 with \<open>tok\<close>, the configured
  lifetime and the requested provider. The token was signed, under the configured key,
  for claims whose \<open>sub\<close> is \<open>uid\<close> and whose \<open>provider\<close> is the requested provider.
  Decoded by the service's own verification, for a library that opens the token to the
  claims it signed: every payload that verification returns has that \<open>sub\<close> and that
  \<open>provider\<close>, and verification does return the payload at any time before the token
  expires.
\<close>

theorem exchange_success:
  assumes "tokenExchangeSchema_parse body = Inr (prov, idToken)"
    and "prov = ''google'' \<and> ex_google_audiences s \<noteq> []
           \<and> google_verifyIdToken (ex_google_audiences s) (ex_google_verify s) idToken = Inr gp
           \<and> g_sub gp = Some uid
         \<or> prov = ''apple'' \<and> ex_apple_audiences s \<noteq> []
           \<and> apple_verifyIdToken (ex_apple_audiences s) (ex_apple_verify s) idToken = Inr ap
           \<and> a_sub ap = Some uid"
    and "signServerJWT (ex_crypto s) (ex_jwt s) now uid prov = Inr tok"
    and "minted = \<lparr> claim_sub = uid, claim_provider = prov, claim_iat = now,
                    claim_exp = map_option (\<lambda>e. now + e) (expiresIn (ex_jwt s)),
                    claim_iss = issuer (ex_jwt s), claim_aud = audience (ex_jwt s) \<rparr>"
  shows "exchange_handler s now body =
           ((200, TokenBody tok (expiresIn (ex_jwt s)) prov),
            [ValidateShape, CheckConfigured, VerifyExternal, MintToken, Respond])
       \<and> (\<exists>k. getPrivateKey (ex_crypto s) (ex_jwt s) = Inr k
              \<and> jws_sign (ex_crypto s) k minted = Inr tok)
       \<and> (getPrivateKey (ex_crypto s) (ex_jwt s) = Inr k
          \<and> getPublicKeyFromPrivate (ex_crypto s) k = Inr pk
          \<and> jws_open (ex_crypto s) pk tok = Inr minted \<longrightarrow>
            (verifyServerJWT (ex_crypto s) (ex_jwt s) later tok = Inr payload \<longrightarrow>
               claim_sub payload = uid \<and> claim_provider payload = prov)
          \<and> (expiresIn (ex_jwt s) = Some e \<and> later < now + e \<longrightarrow>
               verifyServerJWT (ex_crypto s) (ex_jwt s) later tok = Inr minted))"
proof -
  have 1: "exchange_handler s now body =
           ((200, TokenBody tok (expiresIn (ex_jwt s)) prov),
            [ValidateShape, CheckConfigured, VerifyExternal, MintToken, Respond])"
    using assms(2)
  proof
    assume h: "prov = ''google'' \<and> ex_google_audiences s \<noteq> []
           \<and> google_verifyIdToken (ex_google_audiences s) (ex_google_verify s) idToken = Inr gp
           \<and> g_sub gp = Some uid"
    with assms(1) have p: "tokenExchangeSchema_parse body = Inr (''google'', idToken)" by simp
    from h have c: "ex_google_audiences s \<noteq> []" by simp
    from h assms(3) have "signServerJWT (ex_crypto s) (ex_jwt s) now uid ''google'' = Inr tok"
      by simp
    from mint_signed [OF this] h show ?thesis
      by (simp add: exchange_handler_google [OF p c])
  next
    assume h: "prov = ''apple'' \<and> ex_apple_audiences s \<noteq> []
           \<and> apple_verifyIdToken (ex_apple_audiences s) (ex_apple_verify s) idToken = Inr ap
           \<and> a_sub ap = Some uid"
    with assms(1) have p: "tokenExchangeSchema_parse body = Inr (''apple'', idToken)" by simp
    from h have c: "ex_apple_audiences s \<noteq> []" by simp
    from h assms(3) have "signServerJWT (ex_crypto s) (ex_jwt s) now uid ''apple'' = Inr tok"
      by simp
    from mint_signed [OF this] h show ?thesis
      by (simp add: exchange_handler_apple [OF p c])
  qed
  have 2: "\<exists>k. getPrivateKey (ex_crypto s) (ex_jwt s) = Inr k
              \<and> jws_sign (ex_crypto s) k minted = Inr tok"
    using signServerJWT_Inr [OF assms(3)] assms(4) by simp
  have 3: "(verifyServerJWT (ex_crypto s) (ex_jwt s) later tok = Inr payload \<longrightarrow>
               claim_sub payload = uid \<and> claim_provider payload = prov)
          \<and> (expiresIn (ex_jwt s) = Some e \<and> later < now + e \<longrightarrow>
               verifyServerJWT (ex_crypto s) (ex_jwt s) later tok = Inr minted)"
    if h: "getPrivateKey (ex_crypto s) (ex_jwt s) = Inr k
          \<and> getPublicKeyFromPrivate (ex_crypto s) k = Inr pk
          \<and> jws_open (ex_crypto s) pk tok = Inr minted"
  proof -
    from h have a: "getPrivateKey (ex_crypto s) (ex_jwt s) = Inr k"
      and b: "getPublicKeyFromPrivate (ex_crypto s) k = Inr pk"
      and c: "jws_open (ex_crypto s) pk tok = Inr minted" by simp_all
    show ?thesis
      using assms(4)
      by (auto simp: verifyServerJWT_open [OF a b c] split: option.splits if_splits)
  qed
  from 1 2 3 show ?thesis by blast
qed

theorem exchange_success_witness:
  "tokenExchangeSchema_parse example_exchange = Inr (''google'', ''id-1'')
   \<and> ex_google_audiences (example_services ''PEM'' example_google_payload) \<noteq> []
   \<and> google_verifyIdToken (ex_google_audiences (example_services ''PEM'' example_google_payload))
        (ex_google_verify (example_services ''PEM'' example_google_payload)) ''id-1''
       = Inr example_google_payload
   \<and> g_sub example_google_payload = Some ''user-1''
   \<and> signServerJWT (ex_crypto (example_services ''PEM'' example_google_payload))
        (ex_jwt (example_services ''PEM'' example_google_payload)) 1000 ''user-1'' ''google''
       = Inr ''token-1''
   \<and> exchange_handler (example_services ''PEM'' example_google_payload) 1000 example_exchange
       = ((200, TokenBody ''token-1'' (Some 3600) ''google''),
          [ValidateShape, CheckConfigured, VerifyExternal, MintToken, Respond])
   \<and> jws_sign example_crypto ''private'' example_claims = Inr ''token-1''
   \<and> jws_open example_crypto ''public'' ''token-1'' = Inr example_claims
   \<and> verifyServerJWT example_crypto example_jwt 2000 ''token-1'' = Inr example_claims
   \<and> claim_sub example_claims = ''user-1''
   \<and> claim_provider example_claims = ''google''"
proof -
  let ?s = "example_services ''PEM'' example_google_payload"
  have g: "g_sub example_google_payload = Some ''user-1''"
    by (simp add: example_google_payload_def)
  have c: "ex_crypto ?s = example_crypto" and j: "ex_jwt ?s = example_jwt"
    by (simp_all add: example_services_def example_jwt_def)
  have sg: "signServerJWT (ex_crypto ?s) (ex_jwt ?s) 1000 ''user-1'' ''google'' = Inr ''token-1''"
    by (simp add: c j example_signServerJWT)
  have m: "example_claims =
             \<lparr> claim_sub = ''user-1'', claim_provider = ''google'', claim_iat = 1000,
               claim_exp = map_option (\<lambda>e. 1000 + e) (expiresIn (ex_jwt ?s)),
               claim_iss = issuer (ex_jwt ?s), claim_aud = audience (ex_jwt ?s) \<rparr>"
    by (simp add: j example_lifetime example_claims_minted)
  have v: "prov = ''google'' \<and> ex_google_audiences ?s \<noteq> []
           \<and> google_verifyIdToken (ex_google_audiences ?s) (ex_google_verify ?s) ''id-1''
               = Inr example_google_payload
           \<and> g_sub example_google_payload = Some ''user-1''
         \<or> prov = ''apple'' \<and> ex_apple_audiences ?s \<noteq> []
           \<and> apple_verifyIdToken (ex_apple_audiences ?s) (ex_apple_verify ?s) ''id-1'' = Inr ap
           \<and> a_sub ap = Some ''user-1''" if "prov = ''google''" for prov ap
    using that example_services_audiences [of "''PEM''" example_google_payload]
      example_google_verify [of "''PEM''"] g by simp
  note t = exchange_success [OF example_exchange_parse v [OF refl] sg m,
      where k = "''private''" and pk = "''public''" and later = 2000
        and payload = example_claims and e = 3600]
  from t [THEN conjunct1]
  have 1: "exchange_handler ?s 1000 example_exchange
       = ((200, TokenBody ''token-1'' (Some 3600) ''google''),
          [ValidateShape, CheckConfigured, VerifyExternal, MintToken, Respond])"
    by (simp add: j example_lifetime)
  from t [THEN conjunct2, THEN conjunct2] example_keys example_open example_lifetime
  have 2: "verifyServerJWT example_crypto example_jwt 2000 ''token-1'' = Inr example_claims
         \<and> claim_sub example_claims = ''user-1'' \<and> claim_provider example_claims = ''google''"
    by (simp add: c j)
  from 1 2 sg g example_exchange_parse example_sign example_open
       example_services_audiences [of "''PEM''" example_google_payload]
       example_google_verify [of "''PEM''"]
  show ?thesis by simp
qed

section \<open>The streaming relay\<close>

subsection \<open>Line buffering on decoded text\<close>

lemma split_lines_nonempty [simp]: "split_lines t \<noteq> []"
  by (induction t) (auto split: list.splits)

lemma split_lines_append:
  "split_lines (a @ b) = butlast (split_lines a) @ split_lines (last (split_lines a) @ b)"
proof (induction a)
  case Nil
  show ?case by simp
next
  case (Cons c cs)
  show ?case
  proof (cases "c = 10")
    case True
    with Cons show ?thesis by simp
  next
    case False
    obtain l ls where s: "split_lines cs = l # ls"
      by (cases "split_lines cs") auto
    show ?thesis
    proof (cases ls)
      case Nil
      with Cons s False show ?thesis by (simp split: list.splits)
    next
      case (Cons x xs)
      with Cons.IH s False show ?thesis by (simp split: list.splits)
    qed
  qed
qed

lemma res_end_ended: "ended r \<Longrightarrow> res_end r = r"
  by (simp add: res_end_def)

lemma res_write_ended: "ended r \<Longrightarrow> res_write ev r = r"
  by (simp add: res_write_def)

text \<open>Once the response is ended, later lines change nothing that is sent.\<close>

lemma process_lines_ended: "ended r \<Longrightarrow> process_lines h ls r = r"
  by (induction ls) (auto simp: res_end_ended res_write_ended Let_def split: option.splits)

lemma process_lines_append:
  "process_lines h (xs @ ys) r = process_lines h ys (process_lines h xs r)"
proof (induction xs arbitrary: r)
  case Nil
  show ?case by simp
next
  case (Cons x xs)
  show ?case
    by (simp add: Cons.IH Let_def process_lines_ended res_end_def)
qed

lemma on_text_append: "on_text h (on_text h st a) b = on_text h st (a @ b)"
proof -
  let ?A = "split_lines (buffer st @ a)"
  let ?B = "split_lines (last ?A @ b)"
  have w: "split_lines (buffer st @ a @ b) = butlast ?A @ ?B"
    using split_lines_append [of "buffer st @ a" b] by simp
  have "last (butlast ?A @ ?B) = last ?B" by simp
  moreover have "butlast (butlast ?A @ ?B) = butlast ?A @ butlast ?B"
    by (simp add: butlast_append)
  ultimately show ?thesis
    by (simp add: on_text_def Let_def w process_lines_append)
qed

lemma on_text_start_Nil: "on_text h relay_start [] = relay_start"
  by (simp add: on_text_def relay_start_def)

lemma foldl_on_text: "foldl (on_text h) relay_start ts = on_text h relay_start (concat ts)"
proof (induction ts rule: rev_induct)
  case Nil
  show ?case by (simp add: on_text_start_Nil)
next
  case (snoc t ts)
  then show ?case by (simp add: on_text_append)
qed

text \<open>
  On text that is already decoded, what is sent does not depend on where the text is
  cut into pieces, for any line handler.
\<close>

lemma relay_text_chunking: "relay_text h ts = relay_text h [concat ts]"
  by (simp add: relay_text_def foldl_on_text on_text_append [symmetric] on_text_start_Nil)

subsection \<open>One \<open>done\<close> event\<close>

lemma done_once_chunk: "done_once r \<Longrightarrow> done_once (res_write (Chunk c) r)"
  by (auto simp: done_once_def res_write_def)

lemma done_once_finish: "done_once r \<Longrightarrow> done_once (res_end (res_write Done r))"
  by (auto simp: done_once_def res_write_def res_end_def)

lemma done_once_process: "done_once r \<Longrightarrow> done_once (process_lines h ls r)"
proof (induction ls arbitrary: r)
  case Nil
  then show ?case by simp
next
  case (Cons l ls)
  then show ?case
    by (auto simp: Let_def done_once_chunk done_once_finish split: option.splits)
qed

lemma done_once_on_text: "done_once (out st) \<Longrightarrow> done_once (out (on_text h st t))"
  by (simp add: on_text_def Let_def done_once_process)

lemma done_once_foldl: "done_once (out st) \<Longrightarrow> done_once (out (foldl (on_text h) st ts))"
  by (induction ts arbitrary: st) (auto simp: done_once_on_text)

lemma done_once_start: "done_once (out relay_start)"
  by (simp add: relay_start_def done_once_def)

lemma relay_text_done:
  "last (relay_text h ts) = Done \<and> count_list (relay_text h ts) Done = 1"
proof -
  have "done_once (out (foldl (on_text h) relay_start ts))"
    by (rule done_once_foldl [OF done_once_start])
  then have "done_once (on_end (foldl (on_text h) relay_start ts))"
    by (simp add: on_end_def done_once_finish)
  moreover have "ended (on_end (foldl (on_text h) relay_start ts))"
    by (simp add: on_end_def res_end_def)
  ultimately show ?thesis by (simp add: relay_text_def done_once_def)
qed

subsection \<open>Buffers\<close>

lemma relay_stream_text: "relay_stream h chunks = relay_text h (map toString chunks)"
proof -
  have "foldl (on_data h) st chunks = foldl (on_text h) st (map toString chunks)" for st
    by (induction chunks arbitrary: st) (simp_all add: on_data_def)
  then show ?thesis by (simp add: relay_stream_def relay_text_def)
qed

text \<open>
  For every sequence of buffers, with or without a terminator line in it, the client is
  sent exactly one \<open>done\<close> event, and it is the last event.
\<close>

lemma relay_stream_done:
  "last (relay_stream h chunks) = Done \<and> count_list (relay_stream h chunks) Done = 1"
  by (simp add: relay_stream_text relay_text_done)

lemma utf8_run_ascii: "\<forall>b \<in> set bs. b \<le> 127 \<Longrightarrow> utf8_run utf8_init bs = bs"
  by (induction bs) (auto simp: utf8_init_def utf8_lead_def)

lemma toString_ascii: "\<forall>b \<in> set bs. b \<le> 127 \<Longrightarrow> toString bs = bs"
  by (simp add: toString_def utf8_run_ascii)

text \<open>
  When the upstream is ASCII only, decoding each buffer by itself is the same as decoding
  the whole, and what is sent does not depend on where the bytes are cut.
\<close>

lemma relay_stream_ascii:
  assumes "\<forall>b \<in> set (concat chunks). b \<le> 127"
  shows "relay_stream h chunks = relay_stream h [concat chunks]"
proof -
  have "map toString chunks = chunks"
    using assms by (induction chunks) (auto simp: toString_ascii)
  moreover have "toString (concat chunks) = concat chunks"
    using assms by (simp add: toString_ascii)
  ultimately show ?thesis
    using relay_text_chunking [of h chunks] by (simp add: relay_stream_text)
qed

subsection \<open>A character cut in two\<close>

lemma str_simps: "str [] = []" "str (c # cs) = of_char c # str cs"
  by (simp_all add: str_def)

lemma split_lines_one_line: "10 \<notin> set line \<Longrightarrow> split_lines (line @ [10]) = [line, []]"
  by (induction line) auto

lemma relay_text_one_line:
  assumes "10 \<notin> set line" and "\<not> snd (h line)"
  shows "relay_text h [line @ [10]]
         = Connected # (case fst (h line) of None \<Rightarrow> [] | Some c \<Rightarrow> [Chunk c]) @ [Done]"
  using assms
  by (simp add: relay_text_def on_text_def relay_start_def split_lines_one_line Let_def
      on_end_def res_write_def res_end_def split: option.splits)

lemma head_decoded: "toString upstream_head = str ''data: '' @ str delta_prefix @ [65533]"
  by (simp add: toString_def upstream_head_def delta_prefix_def str_simps utf8_init_def
      utf8_lead_def)

lemma tail_decoded: "toString upstream_tail = [65533] @ str delta_suffix @ [10]"
  by (simp add: toString_def upstream_tail_def delta_suffix_def str_simps utf8_init_def
      utf8_lead_def)

lemma whole_decoded:
  "toString (upstream_head @ upstream_tail)
   = str ''data: '' @ str delta_prefix @ [233] @ str delta_suffix @ [10]"
  by (simp add: toString_def upstream_head_def upstream_tail_def delta_prefix_def
      delta_suffix_def str_simps utf8_init_def utf8_lead_def)

lemma openai_line_delta:
  assumes "example_parse x = Some (delta_json c)" and "x \<noteq> str ''[DONE]''"
  shows "openai_line example_parse (str ''data: '' @ x)
         = (if c = [] then None else Some (JStr c), False)"
proof -
  have s: "startsWith (str ''data: '' @ x) (str ''data: '')" by (rule startsWith_append)
  have d: "drop 6 (str ''data: '' @ x) = x" by (simp add: str_simps)
  show ?thesis
    using assms
    by (simp add: openai_line_def s d Let_def delta_json_def opt_chain_def str_simps)
qed

lemma line_no_newline:
  "10 \<notin> set (str ''data: '' @ str delta_prefix @ c @ str delta_suffix) \<longleftrightarrow> 10 \<notin> set c"
  by (simp add: str_simps delta_prefix_def delta_suffix_def)

lemma parse_cases:
  "example_parse (str delta_prefix @ [233] @ str delta_suffix) = Some (delta_json [233])"
  "example_parse (str delta_prefix @ [65533, 65533] @ str delta_suffix)
     = Some (delta_json [65533, 65533])"
  by (simp_all add: example_parse_def)

lemma not_done: "str delta_prefix @ c @ str delta_suffix \<noteq> str ''[DONE]''"
  by (simp add: str_simps delta_prefix_def)

lemma one_read:
  "streamResponse example_parse [upstream_head @ upstream_tail]
     = [Connected, Chunk (JStr [233]), Done]"
proof -
  let ?x = "str delta_prefix @ [233] @ str delta_suffix"
  have l: "openai_line example_parse (str ''data: '' @ ?x) = (Some (JStr [233]), False)"
    using openai_line_delta [OF parse_cases(1) not_done] by simp
  have "streamResponse example_parse [upstream_head @ upstream_tail]
        = relay_text (openai_line example_parse) [(str ''data: '' @ ?x) @ [10]]"
    by (simp add: streamResponse_def relay_stream_text whole_decoded)
  also have "\<dots> = [Connected, Chunk (JStr [233]), Done]"
    using relay_text_one_line [of "str ''data: '' @ ?x" "openai_line example_parse"]
      line_no_newline [of "[233]"] l
    by simp
  finally show ?thesis .
qed

lemma two_reads:
  "streamResponse example_parse [upstream_head, upstream_tail]
     = [Connected, Chunk (JStr [65533, 65533]), Done]"
proof -
  let ?x = "str delta_prefix @ [65533, 65533] @ str delta_suffix"
  have l: "openai_line example_parse (str ''data: '' @ ?x)
           = (Some (JStr [65533, 65533]), False)"
    using openai_line_delta [OF parse_cases(2) not_done] by simp
  have "streamResponse example_parse [upstream_head, upstream_tail]
        = relay_text (openai_line example_parse) [toString upstream_head, toString upstream_tail]"
    by (simp add: streamResponse_def relay_stream_text)
  also have "\<dots> = relay_text (openai_line example_parse)
                      [toString upstream_head @ toString upstream_tail]"
    using relay_text_chunking [of "openai_line example_parse"
            "[toString upstream_head, toString upstream_tail]"] by simp
  also have "toString upstream_head @ toString upstream_tail = (str ''data: '' @ ?x) @ [10]"
    by (simp add: head_decoded tail_decoded)
  also have "relay_text (openai_line example_parse) [(str ''data: '' @ ?x) @ [10]]
             = [Connected, Chunk (JStr [65533, 65533]), Done]"
    using relay_text_one_line [of "str ''data: '' @ ?x" "openai_line example_parse"]
      line_no_newline [of "[65533, 65533]"] l
    by simp
  finally show ?thesis .
qed

text \<open>
  Claim C2 does not hold of the code for every byte sequence and every cut. Each buffer
  is decoded by itself before it is appended to the line buffer, so a character whose
  bytes arrive in two buffers is decoded as two replacement characters. The upstream line
  \<open>data: {"choices":[{"delta":{"content":"\<dots>"}}]}\<close> with the two-byte character
  U+00E9 as content yields the content U+00E9 when it arrives in one buffer, and the
  content U+FFFD U+FFFD when the cut falls between the two bytes. In both cases one
  \<open>done\<close> event is sent, after the chunk.
\<close>

theorem split_character_chunking:
  "streamResponse example_parse [upstream_head @ upstream_tail]
     = [Connected, Chunk (JStr [233]), Done]
   \<and> streamResponse example_parse [upstream_head, upstream_tail]
     = [Connected, Chunk (JStr [65533, 65533]), Done]
   \<and> chunk_contents (streamResponse example_parse [upstream_head, upstream_tail])
     \<noteq> chunk_contents (streamResponse example_parse [upstream_head @ upstream_tail])"
  by (simp add: one_read two_reads)

end
